theory Spec2Isabelle
  imports Complex_Main "HOL-Library.AList" "HOL-Library.Log_Nat"
begin

section \<open>Common types\<close>

text \<open>
  The ledger is a C++ program that signals every failure by an exception and mutates its
  entities in place through shared pointers. In this development
  \<^item> an exception class is a constructor of \<open>error\<close>;
  \<^item> a function that only computes a value returns \<open>error + 'a\<close> (\<open>Inl\<close> is the throw);
  \<^item> a method that mutates its object returns \<open>error option \<times> state\<close>: the exception that
    left the method, if any, together with the object as the method left it, so that
    "nothing was modified before the throw" is a statement about the model and not a
    convention of it;
  \<^item> \<open>Decimal\<close> is \<open>double\<close> in the source and the type \<open>Decimal\<close> of IEEE 754 binary64
    values below: every sum and difference is rounded to the nearest double (ties to
    even), overflows to an infinity, and a comparison with NaN is false;
  \<^item> \<open>DateTimeUtils::now()\<close> and \<open>IdGenerator::generate\<close> read the environment; every
    clock reading and every generated identifier is a parameter of the operation that
    asks for it, one parameter per reading, in the order in which the source reads them.
\<close>

type_synonym Id = string
type_synonym DateTime = int

section \<open>Doubles\<close>

text \<open>
  A \<open>double\<close> is a finite value, an infinity or NaN. The finite values are kept as the
  real numbers they denote; the two zeros of the format are not told apart (the source
  never divides and never prints a zero's sign), and neither are the NaNs. Every result
  of an operation is rounded to a double; a value that comes from outside is one already,
  and what is proved below of every finite value holds of every double.
\<close>

datatype Decimal = Finite real | PlusInfinity | MinusInfinity | NaN

text \<open>Rounding to the nearest integer, a tie to the even one.\<close>

definition roundHalfEven :: "real \<Rightarrow> int" where
  "roundHalfEven r =
     (let f = \<lfloor>r\<rfloor>
      in if r - of_int f < 1 / 2 then f
         else if 1 / 2 < r - of_int f then f + 1
         else if even f then f else f + 1)"

text \<open>The exponent \<open>e\<close> of a positive real \<open>a\<close>: \<open>2^e \<le> a < 2^(e+1)\<close>.\<close>

definition binaryExponent :: "real \<Rightarrow> int" where
  "binaryExponent a =
     (if 1 \<le> a then bitlen \<lfloor>a\<rfloor> - 1 else - bitlen (\<lceil>1 / a\<rceil> - 1))"

definition pow2 :: "int \<Rightarrow> real" where
  "pow2 e = (if 0 \<le> e then 2 ^ nat e else 1 / 2 ^ nat (- e))"

text \<open>
  The spacing of the doubles around \<open>x\<close>: 53 significant bits, and the spacing of the
  subnormal numbers below \<open>2^-1022\<close>.
\<close>

definition ulp :: "real \<Rightarrow> real" where
  "ulp x = pow2 (max (binaryExponent \<bar>x\<bar>) (- 1022) - 52)"

definition maxDouble :: real where
  "maxDouble = (2 ^ 53 - 1) * 2 ^ 971"

text \<open>
  The double that an exact result \<open>x\<close> is rounded to (round to nearest, ties to even): the
  nearest multiple of the spacing, and an infinity when that is beyond the largest double.
\<close>

definition roundDouble :: "real \<Rightarrow> Decimal" where
  "roundDouble x =
     (if x = 0 then Finite 0
      else let y = of_int (roundHalfEven (x / ulp x)) * ulp x
           in if maxDouble < y then PlusInfinity
              else if y < - maxDouble then MinusInfinity
              else Finite y)"

text \<open>The operators \<open>+\<close>, \<open>-\<close>, \<open><\<close>, \<open><=\<close> and \<open>std::abs\<close> on doubles.\<close>

fun double_add :: "Decimal \<Rightarrow> Decimal \<Rightarrow> Decimal" where
  "double_add NaN y = NaN"
| "double_add x NaN = NaN"
| "double_add PlusInfinity MinusInfinity = NaN"
| "double_add MinusInfinity PlusInfinity = NaN"
| "double_add PlusInfinity y = PlusInfinity"
| "double_add MinusInfinity y = MinusInfinity"
| "double_add x PlusInfinity = PlusInfinity"
| "double_add x MinusInfinity = MinusInfinity"
| "double_add (Finite x) (Finite y) = roundDouble (x + y)"

fun double_subtract :: "Decimal \<Rightarrow> Decimal \<Rightarrow> Decimal" where
  "double_subtract NaN y = NaN"
| "double_subtract x NaN = NaN"
| "double_subtract PlusInfinity PlusInfinity = NaN"
| "double_subtract MinusInfinity MinusInfinity = NaN"
| "double_subtract PlusInfinity y = PlusInfinity"
| "double_subtract MinusInfinity y = MinusInfinity"
| "double_subtract x PlusInfinity = MinusInfinity"
| "double_subtract x MinusInfinity = PlusInfinity"
| "double_subtract (Finite x) (Finite y) = roundDouble (x - y)"

fun double_less :: "Decimal \<Rightarrow> Decimal \<Rightarrow> bool" where
  "double_less NaN y = False"
| "double_less x NaN = False"
| "double_less x MinusInfinity = False"
| "double_less PlusInfinity y = False"
| "double_less MinusInfinity y = True"
| "double_less x PlusInfinity = True"
| "double_less (Finite x) (Finite y) = (x < y)"

fun double_less_eq :: "Decimal \<Rightarrow> Decimal \<Rightarrow> bool" where
  "double_less_eq NaN y = False"
| "double_less_eq x NaN = False"
| "double_less_eq MinusInfinity y = True"
| "double_less_eq x PlusInfinity = True"
| "double_less_eq x MinusInfinity = False"
| "double_less_eq PlusInfinity y = False"
| "double_less_eq (Finite x) (Finite y) = (x \<le> y)"

fun double_abs :: "Decimal \<Rightarrow> Decimal" where
  "double_abs (Finite x) = Finite \<bar>x\<bar>"
| "double_abs PlusInfinity = PlusInfinity"
| "double_abs MinusInfinity = PlusInfinity"
| "double_abs NaN = NaN"

text \<open>The literals of the source: \<open>0\<close>, and \<open>0.001\<close>, which denotes the double nearest to it.\<close>

definition literal_0 :: Decimal where
  "literal_0 = Finite 0"

definition literal_0_001 :: Decimal where
  "literal_0_001 = roundDouble (1 / 1000)"

section \<open>Exceptions and validation\<close>

datatype error =
    DomainException
  | ValidationException
  | EntityNotFoundException string Id
  | InsufficientFundsException Decimal Decimal
  | RuntimeError

text \<open>
  A run of \<open>Validator\<close> calls: the calls are pure, so the exception that leaves the run is
  the one of the first call that throws.
\<close>

fun first_error :: "error option list \<Rightarrow> error option" where
  "first_error [] = None"
| "first_error (Some e # cs) = Some e"
| "first_error (None # cs) = first_error cs"

definition validateNotEmpty :: "string \<Rightarrow> error option" where
  "validateNotEmpty v = (if v = [] then Some ValidationException else None)"

definition validatePositive :: "Decimal \<Rightarrow> error option" where
  "validatePositive v =
     (if double_less_eq v literal_0 then Some ValidationException else None)"

definition validateNonNegative :: "Decimal \<Rightarrow> error option" where
  "validateNonNegative v =
     (if double_less v literal_0 then Some ValidationException else None)"

definition validateMaxLength :: "string \<Rightarrow> nat \<Rightarrow> error option" where
  "validateMaxLength v maxLength =
     (if length v > maxLength then Some ValidationException else None)"

text \<open>The character class \<open>[a-zA-Z0-9-]\<close> of the identifier pattern.\<close>

definition idChar :: "char \<Rightarrow> bool" where
  "idChar c =
     (let n = (of_char c :: nat)
      in (97 \<le> n \<and> n \<le> 122) \<or> (65 \<le> n \<and> n \<le> 90) \<or> (48 \<le> n \<and> n \<le> 57) \<or> n = 45)"

definition validateId :: "Id \<Rightarrow> error option" where
  "validateId i =
     first_error [validateNotEmpty i,
                  if list_all idChar i then None else Some ValidationException]"

text \<open>The character class \<open>[0-9A-Fa-f]\<close> and the pattern \<open>#RGB\<close> or \<open>#RRGGBB\<close>.\<close>

definition hexChar :: "char \<Rightarrow> bool" where
  "hexChar c =
     (let n = (of_char c :: nat)
      in (48 \<le> n \<and> n \<le> 57) \<or> (65 \<le> n \<and> n \<le> 70) \<or> (97 \<le> n \<and> n \<le> 102))"

definition validateColor :: "string \<Rightarrow> error option" where
  "validateColor color =
     first_error [validateNotEmpty color,
                  (case color of
                     [] \<Rightarrow> Some ValidationException
                   | c # cs \<Rightarrow>
                       if c = CHR ''#'' \<and> list_all hexChar cs \<and> (length cs = 3 \<or> length cs = 6)
                       then None else Some ValidationException)]"

section \<open>Money\<close>

record Money =
  m_amount :: Decimal
  m_currency :: string

text \<open>The validating constructor \<open>Money(amount, currency)\<close>.\<close>

definition Money_new :: "Decimal \<Rightarrow> string \<Rightarrow> error + Money" where
  "Money_new a c =
     (case first_error [validateNotEmpty c, validateMaxLength c 3] of
        Some e \<Rightarrow> Inl e
      | None \<Rightarrow> Inr \<lparr>m_amount = a, m_currency = c\<rparr>)"

definition Money_add :: "Money \<Rightarrow> Money \<Rightarrow> error + Money" where
  "Money_add x other =
     (if m_currency x \<noteq> m_currency other then Inl ValidationException
      else Money_new (double_add (m_amount x) (m_amount other)) (m_currency x))"

definition Money_subtract :: "Money \<Rightarrow> Money \<Rightarrow> error + Money" where
  "Money_subtract x other =
     (if m_currency x \<noteq> m_currency other then Inl ValidationException
      else Money_new (double_subtract (m_amount x) (m_amount other)) (m_currency x))"

definition Money_isPositive :: "Money \<Rightarrow> bool" where
  "Money_isPositive x = double_less literal_0 (m_amount x)"

definition Money_isZero :: "Money \<Rightarrow> bool" where
  "Money_isZero x = double_less (double_abs (m_amount x)) literal_0_001"

definition Money_equals :: "Money \<Rightarrow> Money \<Rightarrow> bool" where
  "Money_equals x other =
     (double_less (double_abs (double_subtract (m_amount x) (m_amount other))) literal_0_001
      \<and> m_currency x = m_currency other)"

text \<open>\<open>operator<\<close> throws on a currency mismatch.\<close>

definition Money_less :: "Money \<Rightarrow> Money \<Rightarrow> error + bool" where
  "Money_less x other =
     (if m_currency x \<noteq> m_currency other then Inl ValidationException
      else Inr (double_less (m_amount x) (m_amount other)))"

definition Money_zero :: "string \<Rightarrow> error + Money" where
  "Money_zero c = Money_new literal_0 c"

section \<open>Bank account\<close>

record BankAccount =
  acc_id :: Id
  acc_name :: string
  acc_balance :: Money
  acc_accountNumber :: string
  acc_isActive :: bool
  acc_createdAt :: DateTime
  acc_updatedAt :: DateTime
  acc_currency :: string

definition BankAccount_validate :: "BankAccount \<Rightarrow> error option" where
  "BankAccount_validate a =
     first_error [validateId (acc_id a),
                  validateNotEmpty (acc_name a),
                  validateMaxLength (acc_name a) 100,
                  validateMaxLength (acc_accountNumber a) 20]"

text \<open>
  The constructor: the members are initialised, \<open>createdAt_\<close> and \<open>updatedAt_\<close> each from a
  reading of the clock of its own (\<open>now1\<close>, then \<open>now2\<close>), then \<open>validate()\<close> runs.
\<close>

definition BankAccount_new ::
  "Id \<Rightarrow> string \<Rightarrow> Money \<Rightarrow> string \<Rightarrow> bool \<Rightarrow> DateTime \<Rightarrow> DateTime
     \<Rightarrow> error + BankAccount" where
  "BankAccount_new i name initialBalance accountNumber isActive now1 now2 =
     (let a = \<lparr>acc_id = i, acc_name = name, acc_balance = initialBalance,
               acc_accountNumber = accountNumber, acc_isActive = isActive,
               acc_createdAt = now1, acc_updatedAt = now2,
               acc_currency = m_currency initialBalance\<rparr>
      in case BankAccount_validate a of Some e \<Rightarrow> Inl e | None \<Rightarrow> Inr a)"

definition BankAccount_deposit ::
  "BankAccount \<Rightarrow> Money \<Rightarrow> DateTime \<Rightarrow> error option \<times> BankAccount" where
  "BankAccount_deposit a amount now =
     (if \<not> acc_isActive a then (Some DomainException, a)
      else if m_currency amount \<noteq> acc_currency a then (Some ValidationException, a)
      else if \<not> Money_isPositive amount then (Some ValidationException, a)
      else case Money_add (acc_balance a) amount of
             Inl e \<Rightarrow> (Some e, a)
           | Inr b \<Rightarrow> (None, a\<lparr>acc_balance := b, acc_updatedAt := now\<rparr>))"

definition BankAccount_withdraw ::
  "BankAccount \<Rightarrow> Money \<Rightarrow> DateTime \<Rightarrow> error option \<times> BankAccount" where
  "BankAccount_withdraw a amount now =
     (if \<not> acc_isActive a then (Some DomainException, a)
      else if m_currency amount \<noteq> acc_currency a then (Some ValidationException, a)
      else if \<not> Money_isPositive amount then (Some ValidationException, a)
      else case Money_less (acc_balance a) amount of
             Inl e \<Rightarrow> (Some e, a)
           | Inr True \<Rightarrow>
               (Some (InsufficientFundsException (m_amount amount) (m_amount (acc_balance a))), a)
           | Inr False \<Rightarrow>
               (case Money_subtract (acc_balance a) amount of
                  Inl e \<Rightarrow> (Some e, a)
                | Inr b \<Rightarrow> (None, a\<lparr>acc_balance := b, acc_updatedAt := now\<rparr>)))"

text \<open>
  \<open>transfer\<close> works on two objects. When both references name the same object the
  identifiers are equal and the method throws before it touches either, so the two
  accounts are passed and returned as two values. A failed \<open>deposit\<close> into the target is
  caught, the amount is deposited back into the source, and the caught exception is
  thrown again (unless the compensating deposit throws itself). The withdrawal reads the
  clock once (\<open>now1\<close>); so does the deposit that succeeds after it (\<open>now2\<close>), into the
  target or back into the source: a \<open>deposit\<close> that throws has not read the clock.
\<close>

definition BankAccount_transfer ::
  "BankAccount \<Rightarrow> BankAccount \<Rightarrow> Money \<Rightarrow> DateTime \<Rightarrow> DateTime
     \<Rightarrow> error option \<times> BankAccount \<times> BankAccount" where
  "BankAccount_transfer this targetAccount amount now1 now2 =
     (if \<not> acc_isActive this \<or> \<not> acc_isActive targetAccount
      then (Some DomainException, this, targetAccount)
      else if acc_id this = acc_id targetAccount
      then (Some ValidationException, this, targetAccount)
      else case BankAccount_withdraw this amount now1 of
             (Some e, this1) \<Rightarrow> (Some e, this1, targetAccount)
           | (None, this1) \<Rightarrow>
               (case BankAccount_deposit targetAccount amount now2 of
                  (None, target1) \<Rightarrow> (None, this1, target1)
                | (Some e, target1) \<Rightarrow>
                    (case BankAccount_deposit this1 amount now2 of
                       (Some e2, this2) \<Rightarrow> (Some e2, this2, target1)
                     | (None, this2) \<Rightarrow> (Some e, this2, target1))))"

definition BankAccount_recalculateBalance ::
  "BankAccount \<Rightarrow> Money \<Rightarrow> DateTime \<Rightarrow> error option \<times> BankAccount" where
  "BankAccount_recalculateBalance a newBalance now =
     (if m_currency newBalance \<noteq> acc_currency a then (Some ValidationException, a)
      else (None, a\<lparr>acc_balance := newBalance, acc_updatedAt := now\<rparr>))"

section \<open>Operations and categories\<close>

datatype OperationType = INCOME | EXPENSE

datatype CategoryType = CategoryINCOME | CategoryEXPENSE

record Operation =
  op_id :: Id
  op_type :: OperationType
  op_bankAccountId :: Id
  op_amount :: Money
  op_date :: DateTime
  op_description :: string
  op_categoryId :: Id
  op_createdAt :: DateTime
  op_updatedAt :: DateTime
  op_isRecurring :: bool
  op_recurringPattern :: string

definition Operation_validate :: "Operation \<Rightarrow> error option" where
  "Operation_validate operation =
     first_error [validateId (op_id operation),
                  validateId (op_bankAccountId operation),
                  validateId (op_categoryId operation),
                  if \<not> Money_isPositive (op_amount operation)
                  then Some ValidationException else None,
                  validateMaxLength (op_description operation) 500]"

text \<open>
  The constructor reads the clock twice, for \<open>createdAt_\<close> (\<open>now1\<close>) and for \<open>updatedAt_\<close>
  (\<open>now2\<close>).
\<close>

definition Operation_new ::
  "Id \<Rightarrow> OperationType \<Rightarrow> Id \<Rightarrow> Money \<Rightarrow> DateTime \<Rightarrow> Id \<Rightarrow> string \<Rightarrow> bool \<Rightarrow> string
     \<Rightarrow> DateTime \<Rightarrow> DateTime \<Rightarrow> error + Operation" where
  "Operation_new i type bankAccountId amount date categoryId description isRecurring
       recurringPattern now1 now2 =
     (let operation =
            \<lparr>op_id = i, op_type = type, op_bankAccountId = bankAccountId, op_amount = amount,
             op_date = date, op_description = description, op_categoryId = categoryId,
             op_createdAt = now1, op_updatedAt = now2, op_isRecurring = isRecurring,
             op_recurringPattern = recurringPattern\<rparr>
      in case Operation_validate operation of Some e \<Rightarrow> Inl e | None \<Rightarrow> Inr operation)"

definition Operation_isIncome :: "Operation \<Rightarrow> bool" where
  "Operation_isIncome operation = (op_type operation = INCOME)"

record Category =
  cat_id :: Id
  cat_type :: CategoryType
  cat_name :: string
  cat_description :: string
  cat_color :: string
  cat_icon :: string

definition Category_validate :: "Category \<Rightarrow> error option" where
  "Category_validate c =
     first_error [validateId (cat_id c),
                  validateColor (cat_color c),
                  validateNotEmpty (cat_name c),
                  validateMaxLength (cat_name c) 50,
                  validateMaxLength (cat_description c) 200]"

definition Category_new ::
  "Id \<Rightarrow> CategoryType \<Rightarrow> string \<Rightarrow> string \<Rightarrow> string \<Rightarrow> string \<Rightarrow> error + Category" where
  "Category_new i type name description color icon =
     (let c = \<lparr>cat_id = i, cat_type = type, cat_name = name, cat_description = description,
               cat_color = color, cat_icon = icon\<rparr>
      in case Category_validate c of Some e \<Rightarrow> Inl e | None \<Rightarrow> Inr c)"

section \<open>Entity factory\<close>

text \<open>
  Each factory method validates its arguments, asks \<open>IdGenerator\<close> for an identifier (the
  parameter \<open>generatedId\<close>) and calls the entity's constructor, which validates again and
  reads the clock (\<open>now1\<close>, \<open>now2\<close>).
\<close>

definition EntityFactory_createBankAccount ::
  "string \<Rightarrow> Money \<Rightarrow> string \<Rightarrow> Id \<Rightarrow> DateTime \<Rightarrow> DateTime \<Rightarrow> error + BankAccount" where
  "EntityFactory_createBankAccount name initialBalance accountNumber generatedId now1 now2 =
     (case first_error [validateNotEmpty name,
                        validateMaxLength name 100,
                        validateNonNegative (m_amount initialBalance)] of
        Some e \<Rightarrow> Inl e
      | None \<Rightarrow> BankAccount_new generatedId name initialBalance accountNumber True now1 now2)"

definition EntityFactory_createCategory ::
  "CategoryType \<Rightarrow> string \<Rightarrow> string \<Rightarrow> Id \<Rightarrow> error + Category" where
  "EntityFactory_createCategory type name description generatedId =
     (case first_error [validateNotEmpty name,
                        validateMaxLength name 50,
                        validateMaxLength description 500] of
        Some e \<Rightarrow> Inl e
      | None \<Rightarrow> Category_new generatedId type name description ''#000000'' ''default'')"

text \<open>
  The commands never pass a date, so the default argument \<open>DateTimeUtils::now()\<close> is
  evaluated at the call: \<open>date\<close> is a reading of the clock, taken before the two of the
  constructor.
\<close>

definition EntityFactory_createOperation ::
  "OperationType \<Rightarrow> Id \<Rightarrow> Money \<Rightarrow> Id \<Rightarrow> string \<Rightarrow> Id \<Rightarrow> DateTime \<Rightarrow> DateTime \<Rightarrow> DateTime
     \<Rightarrow> error + Operation" where
  "EntityFactory_createOperation type bankAccountId amount categoryId description
       generatedId date now1 now2 =
     (case first_error [validateId bankAccountId,
                        validateId categoryId,
                        validatePositive (m_amount amount),
                        validateMaxLength description 500] of
        Some e \<Rightarrow> Inl e
      | None \<Rightarrow> Operation_new generatedId type bankAccountId amount date categoryId description
                  False [] now1 now2)"

section \<open>In-memory repository\<close>

text \<open>
  \<open>InMemoryRepository<T>\<close> keeps an \<open>unordered_map\<close> from identifiers to shared pointers.
  The storage is an association list with at most one entry per key: its order stands for
  the unspecified iteration order of the hash map. The entity type \<open>'e\<close> is whatever the
  repository holds (a pointer or a value); \<open>getId\<close> reads the identifier of an entity.
  The mutex serialises the calls and has no counterpart here.
\<close>

type_synonym 'e Storage = "(Id \<times> 'e) list"

definition InMemoryRepository_save :: "('e \<Rightarrow> Id) \<Rightarrow> 'e \<Rightarrow> 'e Storage \<Rightarrow> 'e Storage" where
  "InMemoryRepository_save getId entity storage = AList.update (getId entity) entity storage"

definition InMemoryRepository_update ::
  "('e \<Rightarrow> Id) \<Rightarrow> 'e \<Rightarrow> 'e Storage \<Rightarrow> error option \<times> 'e Storage" where
  "InMemoryRepository_update getId entity storage =
     (case map_of storage (getId entity) of
        None \<Rightarrow> (Some (EntityNotFoundException ''Entity'' (getId entity)), storage)
      | Some old \<Rightarrow> (None, AList.update (getId entity) entity storage))"

definition InMemoryRepository_remove :: "Id \<Rightarrow> 'e Storage \<Rightarrow> 'e Storage" where
  "InMemoryRepository_remove i storage = AList.delete i storage"

definition InMemoryRepository_findById :: "Id \<Rightarrow> 'e Storage \<Rightarrow> 'e option" where
  "InMemoryRepository_findById i storage = map_of storage i"

definition InMemoryRepository_findAll :: "'e Storage \<Rightarrow> 'e list" where
  "InMemoryRepository_findAll storage = map snd storage"

definition InMemoryRepository_count :: "'e Storage \<Rightarrow> nat" where
  "InMemoryRepository_count storage = length storage"

definition InMemoryRepository_clear :: "'e Storage \<Rightarrow> 'e Storage" where
  "InMemoryRepository_clear storage = []"

text \<open>The first category with the given name, in iteration order.\<close>

definition InMemoryCategoryRepository_findByName ::
  "string \<Rightarrow> Category Storage \<Rightarrow> Category option" where
  "InMemoryCategoryRepository_findByName name storage =
     find (\<lambda>c. cat_name c = name) (map snd storage)"

text \<open>
  The operations of an account, sorted by date, latest first (\<open>std::sort\<close> is not stable;
  the insertion sort used here is one of its possible results).
\<close>

definition InMemoryOperationRepository_findByAccount ::
  "Id \<Rightarrow> Operation Storage \<Rightarrow> Operation list" where
  "InMemoryOperationRepository_findByAccount accountId storage =
     sort_key (\<lambda>operation. - op_date operation)
       (filter (\<lambda>operation. op_bankAccountId operation = accountId) (map snd storage))"

section \<open>Caching proxy\<close>

text \<open>
  \<open>CachingRepositoryProxy<T>\<close> holds the real repository and a map from identifiers to
  cache entries (the entity and its expiry time). \<open>steady_clock::now()\<close> is the parameter
  \<open>now\<close> of every call that reads it.
\<close>

record 'e CachingRepositoryProxy =
  realRepository :: "'e Storage"
  cache :: "(Id \<times> 'e \<times> int) list"
  cacheDuration :: int

definition CacheEntry_isExpired :: "'e \<times> int \<Rightarrow> int \<Rightarrow> bool" where
  "CacheEntry_isExpired entry now = (now > snd entry)"

definition CachingRepositoryProxy_cacheEntity ::
  "('e \<Rightarrow> Id) \<Rightarrow> 'e \<Rightarrow> int \<Rightarrow> 'e CachingRepositoryProxy \<Rightarrow> 'e CachingRepositoryProxy" where
  "CachingRepositoryProxy_cacheEntity getId entity now proxy =
     proxy\<lparr>cache := AList.update (getId entity) (entity, now + cacheDuration proxy)
                        (cache proxy)\<rparr>"

definition CachingRepositoryProxy_save ::
  "('e \<Rightarrow> Id) \<Rightarrow> 'e \<Rightarrow> int \<Rightarrow> 'e CachingRepositoryProxy \<Rightarrow> 'e CachingRepositoryProxy" where
  "CachingRepositoryProxy_save getId entity now proxy =
     CachingRepositoryProxy_cacheEntity getId entity now
       (proxy\<lparr>realRepository := InMemoryRepository_save getId entity (realRepository proxy)\<rparr>)"

definition CachingRepositoryProxy_update ::
  "('e \<Rightarrow> Id) \<Rightarrow> 'e \<Rightarrow> int \<Rightarrow> 'e CachingRepositoryProxy
     \<Rightarrow> error option \<times> 'e CachingRepositoryProxy" where
  "CachingRepositoryProxy_update getId entity now proxy =
     (case InMemoryRepository_update getId entity (realRepository proxy) of
        (Some e, storage) \<Rightarrow> (Some e, proxy\<lparr>realRepository := storage\<rparr>)
      | (None, storage) \<Rightarrow>
          (None, CachingRepositoryProxy_cacheEntity getId entity now
                   (proxy\<lparr>realRepository := storage\<rparr>)))"

definition CachingRepositoryProxy_remove ::
  "Id \<Rightarrow> 'e CachingRepositoryProxy \<Rightarrow> 'e CachingRepositoryProxy" where
  "CachingRepositoryProxy_remove i proxy =
     proxy\<lparr>realRepository := InMemoryRepository_remove i (realRepository proxy),
           cache := AList.delete i (cache proxy)\<rparr>"

definition CachingRepositoryProxy_findById ::
  "('e \<Rightarrow> Id) \<Rightarrow> Id \<Rightarrow> int \<Rightarrow> 'e CachingRepositoryProxy
     \<Rightarrow> 'e option \<times> 'e CachingRepositoryProxy" where
  "CachingRepositoryProxy_findById getId i now proxy =
     (let hit = (case map_of (cache proxy) i of
                   Some entry \<Rightarrow> if \<not> CacheEntry_isExpired entry now
                                 then Some (fst entry) else None
                 | None \<Rightarrow> None)
      in case hit of
           Some entity \<Rightarrow> (Some entity, proxy)
         | None \<Rightarrow>
             (case InMemoryRepository_findById i (realRepository proxy) of
                Some entity \<Rightarrow>
                  (Some entity, CachingRepositoryProxy_cacheEntity getId entity now proxy)
              | None \<Rightarrow> (None, proxy)))"

section \<open>The ledger state and the domain services\<close>

text \<open>
  Bank accounts are mutated in place through shared pointers, before and independently of
  the repository's \<open>update\<close>, so they live in an explicit heap: \<open>heap\<close> maps an address to
  the object there, \<open>allocated\<close> is the next free address, and the account repository maps
  identifiers to addresses. Operations and categories are never modified once constructed
  by the code below, so their repositories hold them as values. The account repository is
  the in-memory one.
\<close>

record World =
  heap :: "nat \<Rightarrow> BankAccount"
  allocated :: nat
  accountRepo :: "nat Storage"
  operationRepo :: "Operation Storage"
  categoryRepo :: "Category Storage"

definition accountId :: "World \<Rightarrow> nat \<Rightarrow> Id" where
  "accountId w p = acc_id (heap w p)"

definition setAccount :: "nat \<Rightarrow> BankAccount \<Rightarrow> World \<Rightarrow> World" where
  "setAccount p a w = w\<lparr>heap := (heap w)(p := a)\<rparr>"

definition make_shared_BankAccount :: "BankAccount \<Rightarrow> World \<Rightarrow> nat \<times> World" where
  "make_shared_BankAccount a w =
     (allocated w, w\<lparr>heap := (heap w)(allocated w := a), allocated := Suc (allocated w)\<rparr>)"

definition AccountRepository_update :: "nat \<Rightarrow> World \<Rightarrow> error option \<times> World" where
  "AccountRepository_update p w =
     (case InMemoryRepository_update (accountId w) p (accountRepo w) of
        (r, storage) \<Rightarrow> (r, w\<lparr>accountRepo := storage\<rparr>))"

definition OperationRepository_save :: "Operation \<Rightarrow> World \<Rightarrow> World" where
  "OperationRepository_save operation w =
     w\<lparr>operationRepo := InMemoryRepository_save op_id operation (operationRepo w)\<rparr>"

text \<open>\<open>OperationProcessingService::processOperation\<close>.\<close>

definition processOperation :: "Operation \<Rightarrow> DateTime \<Rightarrow> World \<Rightarrow> error option \<times> World" where
  "processOperation operation now w =
     (case InMemoryRepository_findById (op_bankAccountId operation) (accountRepo w) of
        None \<Rightarrow> (Some (EntityNotFoundException ''BankAccount'' (op_bankAccountId operation)), w)
      | Some p \<Rightarrow>
          (case (if Operation_isIncome operation
                 then BankAccount_deposit (heap w p) (op_amount operation) now
                 else BankAccount_withdraw (heap w p) (op_amount operation) now) of
             (Some e, a) \<Rightarrow> (Some e, setAccount p a w)
           | (None, a) \<Rightarrow>
               AccountRepository_update p (OperationRepository_save operation (setAccount p a w))))"

record AccountBalance =
  ab_accountId :: Id
  ab_accountName :: string
  ab_balance :: Money
  ab_calculatedBalance :: Money
  ab_hasDiscrepancy :: bool

text \<open>The loop of \<open>checkAccountBalance\<close> over the account's operations.\<close>

fun calculate :: "Operation list \<Rightarrow> Money \<Rightarrow> error + Money" where
  "calculate [] calculated = Inr calculated"
| "calculate (operation # operations) calculated =
     (case (if Operation_isIncome operation
            then Money_add calculated (op_amount operation)
            else Money_subtract calculated (op_amount operation)) of
        Inl e \<Rightarrow> Inl e
      | Inr calculated' \<Rightarrow> calculate operations calculated')"

definition checkAccountBalance :: "Id \<Rightarrow> World \<Rightarrow> error + AccountBalance" where
  "checkAccountBalance i w =
     (case InMemoryRepository_findById i (accountRepo w) of
        None \<Rightarrow> Inl (EntityNotFoundException ''BankAccount'' i)
      | Some p \<Rightarrow>
          (case Money_zero (acc_currency (heap w p)) of
             Inl e \<Rightarrow> Inl e
           | Inr zero \<Rightarrow>
               (case calculate (InMemoryOperationRepository_findByAccount i (operationRepo w))
                       zero of
                  Inl e \<Rightarrow> Inl e
                | Inr calculated \<Rightarrow>
                    Inr \<lparr>ab_accountId = i,
                         ab_accountName = acc_name (heap w p),
                         ab_balance = acc_balance (heap w p),
                         ab_calculatedBalance = calculated,
                         ab_hasDiscrepancy =
                           (\<not> Money_equals (acc_balance (heap w p)) calculated)\<rparr>)))"


text \<open>
  \<open>BalanceReconciliationService::recalculateBalance\<close>: with \<open>autoFix\<close>, a reported discrepancy
  is removed by overwriting the stored balance with the calculated one.
\<close>

definition BalanceReconciliationService_recalculateBalance ::
  "Id \<Rightarrow> bool \<Rightarrow> DateTime \<Rightarrow> World \<Rightarrow> error option \<times> World" where
  "BalanceReconciliationService_recalculateBalance i autoFix now w =
     (case checkAccountBalance i w of
        Inl e \<Rightarrow> (Some e, w)
      | Inr result \<Rightarrow>
          if ab_hasDiscrepancy result \<and> autoFix
          then (case InMemoryRepository_findById i (accountRepo w) of
                  None \<Rightarrow> (None, w)
                | Some p \<Rightarrow>
                    (case BankAccount_recalculateBalance (heap w p)
                            (ab_calculatedBalance result) now of
                       (Some e, a) \<Rightarrow> (Some e, setAccount p a w)
                     | (None, a) \<Rightarrow> AccountRepository_update p (setAccount p a w)))
          else (None, w))"
section \<open>Commands\<close>

text \<open>
  What a command reads from the environment while it runs: the clock, and the identifiers
  that \<open>IdGenerator\<close> hands out. \<open>env_clock n\<close> is the \<open>n\<close>-th reading of the clock during the
  call (counted from \<open>0\<close>), \<open>env_id\<close> is the identifier of the account or operation
  the command creates (for a transfer, of the withdrawal operation), \<open>env_id2\<close> the one of
  a transfer's deposit operation, \<open>env_categoryId\<close> the one of the category a transfer
  creates when there is none yet.
\<close>

record Env =
  env_clock :: "nat \<Rightarrow> DateTime"
  env_id :: Id
  env_id2 :: Id
  env_categoryId :: Id

text \<open>The string literals of the source that are not ASCII, as their UTF-8 bytes.\<close>

definition str_transfer :: string where
  "str_transfer =
     [CHR 0xD0, CHR 0x9F, CHR 0xD0, CHR 0xB5, CHR 0xD1, CHR 0x80, CHR 0xD0, CHR 0xB5,
      CHR 0xD0, CHR 0xB2, CHR 0xD0, CHR 0xBE, CHR 0xD0, CHR 0xB4]"

definition str_transfers_between_accounts :: string where
  "str_transfers_between_accounts =
     [CHR 0xD0, CHR 0x9F, CHR 0xD0, CHR 0xB5, CHR 0xD1, CHR 0x80, CHR 0xD0, CHR 0xB5,
      CHR 0xD0, CHR 0xB2, CHR 0xD0, CHR 0xBE, CHR 0xD0, CHR 0xB4, CHR 0xD1, CHR 0x8B,
      CHR 0x20, CHR 0xD0, CHR 0xBC, CHR 0xD0, CHR 0xB5, CHR 0xD0, CHR 0xB6, CHR 0xD0,
      CHR 0xB4, CHR 0xD1, CHR 0x83, CHR 0x20, CHR 0xD1, CHR 0x81, CHR 0xD1, CHR 0x87,
      CHR 0xD0, CHR 0xB5, CHR 0xD1, CHR 0x82, CHR 0xD0, CHR 0xB0, CHR 0xD0, CHR 0xBC,
      CHR 0xD0, CHR 0xB8]"

definition str_create_account :: string where
  "str_create_account =
     [CHR 0x2D, CHR 0xD0, CHR 0xA1, CHR 0xD0, CHR 0xBE, CHR 0xD0, CHR 0xB7, CHR 0xD0,
      CHR 0xB4, CHR 0xD0, CHR 0xB0, CHR 0xD1, CHR 0x82, CHR 0xD1, CHR 0x8C, CHR 0x20,
      CHR 0xD0, CHR 0xA1, CHR 0xD1, CHR 0x87, CHR 0xD0, CHR 0xB5, CHR 0xD1, CHR 0x82,
      CHR 0x2D]"

definition str_add_operation :: string where
  "str_add_operation =
     [CHR 0xD0, CHR 0x94, CHR 0xD0, CHR 0xBE, CHR 0xD0, CHR 0xB1, CHR 0xD0, CHR 0xB0,
      CHR 0xD0, CHR 0xB2, CHR 0xD0, CHR 0xB8, CHR 0xD1, CHR 0x82, CHR 0xD1, CHR 0x8C,
      CHR 0x20, CHR 0xD0, CHR 0x9E, CHR 0xD0, CHR 0xBF, CHR 0xD0, CHR 0xB5, CHR 0xD1,
      CHR 0x80, CHR 0xD0, CHR 0xB0, CHR 0xD1, CHR 0x86, CHR 0xD0, CHR 0xB8, CHR 0xD1,
      CHR 0x8E]"

subsection \<open>BaseCommand\<close>

record BaseCommand =
  cmd_name :: string
  executed :: bool

text \<open>
  \<open>execute\<close> and \<open>undo\<close> of the base class, around the \<open>doExecute\<close> and \<open>doUndo\<close> of the
  derived class. A command object changes together with the world, so both are returned.
\<close>

definition BaseCommand_execute ::
  "('a BaseCommand_scheme \<Rightarrow> Env \<Rightarrow> World \<Rightarrow> error option \<times> 'a BaseCommand_scheme \<times> World)
     \<Rightarrow> 'a BaseCommand_scheme \<Rightarrow> Env \<Rightarrow> World
     \<Rightarrow> error option \<times> 'a BaseCommand_scheme \<times> World" where
  "BaseCommand_execute doExecute c env w =
     (if executed c then (Some RuntimeError, c, w)
      else case doExecute c env w of
             (Some e, c', w') \<Rightarrow> (Some e, c', w')
           | (None, c', w') \<Rightarrow> (None, c'\<lparr>executed := True\<rparr>, w'))"

definition BaseCommand_undo ::
  "bool
     \<Rightarrow> ('a BaseCommand_scheme \<Rightarrow> Env \<Rightarrow> World \<Rightarrow> error option \<times> 'a BaseCommand_scheme \<times> World)
     \<Rightarrow> 'a BaseCommand_scheme \<Rightarrow> Env \<Rightarrow> World
     \<Rightarrow> error option \<times> 'a BaseCommand_scheme \<times> World" where
  "BaseCommand_undo canUndo doUndo c env w =
     (if \<not> executed c then (Some RuntimeError, c, w)
      else if \<not> canUndo then (Some RuntimeError, c, w)
      else case doUndo c env w of
             (Some e, c', w') \<Rightarrow> (Some e, c', w')
           | (None, c', w') \<Rightarrow> (None, c'\<lparr>executed := False\<rparr>, w'))"

subsection \<open>CreateAccountCommand\<close>

record CreateAccountCommand = BaseCommand +
  cac_accountName :: string
  cac_initialBalance :: Money
  cac_accountNumber :: string
  cac_createdAccount :: "nat option"

definition CreateAccountCommand_new :: "string \<Rightarrow> Money \<Rightarrow> string \<Rightarrow> CreateAccountCommand" where
  "CreateAccountCommand_new accountName initialBalance accountNumber =
     \<lparr>cmd_name = str_create_account, executed = False, cac_accountName = accountName,
      cac_initialBalance = initialBalance, cac_accountNumber = accountNumber,
      cac_createdAccount = None\<rparr>"

definition CreateAccountCommand_doExecute ::
  "CreateAccountCommand \<Rightarrow> Env \<Rightarrow> World \<Rightarrow> error option \<times> CreateAccountCommand \<times> World" where
  "CreateAccountCommand_doExecute c env w =
     (case EntityFactory_createBankAccount (cac_accountName c) (cac_initialBalance c)
             (cac_accountNumber c) (env_id env) (env_clock env 0) (env_clock env 1) of
        Inl e \<Rightarrow> (Some e, c, w)
      | Inr a \<Rightarrow>
          (case make_shared_BankAccount a w of
             (p, w1) \<Rightarrow>
               (None, c\<lparr>cac_createdAccount := Some p\<rparr>,
                w1\<lparr>accountRepo := InMemoryRepository_save (accountId w1) p (accountRepo w1)\<rparr>)))"

definition CreateAccountCommand_doUndo ::
  "CreateAccountCommand \<Rightarrow> Env \<Rightarrow> World \<Rightarrow> error option \<times> CreateAccountCommand \<times> World" where
  "CreateAccountCommand_doUndo c env w =
     (case cac_createdAccount c of
        Some p \<Rightarrow>
          (None, c\<lparr>cac_createdAccount := None\<rparr>,
           w\<lparr>accountRepo := InMemoryRepository_remove (accountId w p) (accountRepo w)\<rparr>)
      | None \<Rightarrow> (None, c, w))"

definition CreateAccountCommand_execute ::
  "CreateAccountCommand \<Rightarrow> Env \<Rightarrow> World \<Rightarrow> error option \<times> CreateAccountCommand \<times> World" where
  "CreateAccountCommand_execute = BaseCommand_execute CreateAccountCommand_doExecute"

definition CreateAccountCommand_undo ::
  "CreateAccountCommand \<Rightarrow> Env \<Rightarrow> World \<Rightarrow> error option \<times> CreateAccountCommand \<times> World" where
  "CreateAccountCommand_undo = BaseCommand_undo True CreateAccountCommand_doUndo"

subsection \<open>AddOperationCommand\<close>

record AddOperationCommand = BaseCommand +
  aoc_type :: OperationType
  aoc_bankAccountId :: Id
  aoc_amount :: Money
  aoc_categoryId :: Id
  aoc_description :: string
  aoc_createdOperation :: "Operation option"
  aoc_account :: "nat option"
  aoc_previousBalance :: Money

text \<open>
  \<open>previousBalance_\<close> is default-constructed: an empty currency, and an amount the source
  leaves uninitialised (taken as \<open>0\<close>; the command overwrites it before it reads it).
\<close>

definition AddOperationCommand_new ::
  "OperationType \<Rightarrow> Id \<Rightarrow> Money \<Rightarrow> Id \<Rightarrow> string \<Rightarrow> AddOperationCommand" where
  "AddOperationCommand_new type bankAccountId amount categoryId description =
     \<lparr>cmd_name = str_add_operation, executed = False, aoc_type = type,
      aoc_bankAccountId = bankAccountId, aoc_amount = amount, aoc_categoryId = categoryId,
      aoc_description = description, aoc_createdOperation = None, aoc_account = None,
      aoc_previousBalance = \<lparr>m_amount = literal_0, m_currency = []\<rparr>\<rparr>"

definition AddOperationCommand_doExecute ::
  "AddOperationCommand \<Rightarrow> Env \<Rightarrow> World \<Rightarrow> error option \<times> AddOperationCommand \<times> World" where
  "AddOperationCommand_doExecute c env w =
     (case InMemoryRepository_findById (aoc_bankAccountId c) (accountRepo w) of
        None \<Rightarrow> (Some (EntityNotFoundException ''BankAccount'' (aoc_bankAccountId c)), c, w)
      | Some p \<Rightarrow>
          (let c1 = c\<lparr>aoc_account := Some p, aoc_previousBalance := acc_balance (heap w p)\<rparr>
           in case EntityFactory_createOperation (aoc_type c) (aoc_bankAccountId c)
                     (aoc_amount c) (aoc_categoryId c) (aoc_description c)
                     (env_id env) (env_clock env 0) (env_clock env 1) (env_clock env 2) of
                Inl e \<Rightarrow> (Some e, c1, w)
              | Inr operation \<Rightarrow>
                  (case processOperation operation (env_clock env 3) w of
                     (r, w') \<Rightarrow> (r, c1\<lparr>aoc_createdOperation := Some operation\<rparr>, w'))))"

definition AddOperationCommand_doUndo ::
  "AddOperationCommand \<Rightarrow> Env \<Rightarrow> World \<Rightarrow> error option \<times> AddOperationCommand \<times> World" where
  "AddOperationCommand_doUndo c env w =
     (case (aoc_createdOperation c, aoc_account c) of
        (Some operation, Some p) \<Rightarrow>
          (let w1 = w\<lparr>operationRepo :=
                        InMemoryRepository_remove (op_id operation) (operationRepo w)\<rparr>
           in case BankAccount_recalculateBalance (heap w1 p) (aoc_previousBalance c)
                     (env_clock env 0) of
                (Some e, a) \<Rightarrow> (Some e, c, setAccount p a w1)
              | (None, a) \<Rightarrow>
                  (case AccountRepository_update p (setAccount p a w1) of
                     (Some e, w2) \<Rightarrow> (Some e, c, w2)
                   | (None, w2) \<Rightarrow> (None, c\<lparr>aoc_createdOperation := None\<rparr>, w2)))
      | _ \<Rightarrow> (None, c, w))"

definition AddOperationCommand_execute ::
  "AddOperationCommand \<Rightarrow> Env \<Rightarrow> World \<Rightarrow> error option \<times> AddOperationCommand \<times> World" where
  "AddOperationCommand_execute = BaseCommand_execute AddOperationCommand_doExecute"

definition AddOperationCommand_undo ::
  "AddOperationCommand \<Rightarrow> Env \<Rightarrow> World \<Rightarrow> error option \<times> AddOperationCommand \<times> World" where
  "AddOperationCommand_undo = BaseCommand_undo True AddOperationCommand_doUndo"

subsection \<open>TransferCommand\<close>

record TransferCommand = BaseCommand +
  tc_fromAccountId :: Id
  tc_toAccountId :: Id
  tc_amount :: Money
  tc_description :: string
  tc_withdrawOperation :: "Operation option"
  tc_depositOperation :: "Operation option"

definition TransferCommand_new :: "Id \<Rightarrow> Id \<Rightarrow> Money \<Rightarrow> string \<Rightarrow> TransferCommand" where
  "TransferCommand_new fromAccountId toAccountId amount description =
     \<lparr>cmd_name = str_transfer, executed = False, tc_fromAccountId = fromAccountId,
      tc_toAccountId = toAccountId, tc_amount = amount, tc_description = description,
      tc_withdrawOperation = None, tc_depositOperation = None\<rparr>"

text \<open>
  The second half of \<open>doExecute\<close>, after the two accounts are updated. First the transfer
  category is looked up by name and created and saved when absent.
\<close>

definition TransferCommand_transferCategory :: "Env \<Rightarrow> World \<Rightarrow> error + Category \<times> World" where
  "TransferCommand_transferCategory env w =
     (case InMemoryCategoryRepository_findByName str_transfer (categoryRepo w) of
        Some category \<Rightarrow> Inr (category, w)
      | None \<Rightarrow>
          (case EntityFactory_createCategory CategoryEXPENSE str_transfer
                  str_transfers_between_accounts (env_categoryId env) of
             Inl e \<Rightarrow> Inl e
           | Inr category \<Rightarrow>
               Inr (category,
                    w\<lparr>categoryRepo :=
                        InMemoryRepository_save cat_id category (categoryRepo w)\<rparr>)))"

text \<open>
  Then the expense on the source and the income on the destination are created and saved.
  The transfer before has read the clock twice, so the two operations are made from the
  readings 2 to 4 and 5 to 7.
\<close>

definition TransferCommand_recordOperations ::
  "TransferCommand \<Rightarrow> Env \<Rightarrow> World \<Rightarrow> error option \<times> TransferCommand \<times> World" where
  "TransferCommand_recordOperations c env w =
     (case TransferCommand_transferCategory env w of
        Inl e \<Rightarrow> (Some e, c, w)
      | Inr (transferCategory, w1) \<Rightarrow>
          (case EntityFactory_createOperation EXPENSE (tc_fromAccountId c) (tc_amount c)
                  (cat_id transferCategory) (tc_description c) (env_id env)
                  (env_clock env 2) (env_clock env 3) (env_clock env 4) of
             Inl e \<Rightarrow> (Some e, c, w1)
           | Inr withdrawOperation \<Rightarrow>
               (let c1 = c\<lparr>tc_withdrawOperation := Some withdrawOperation\<rparr>;
                    w2 = OperationRepository_save withdrawOperation w1
                in case EntityFactory_createOperation INCOME (tc_toAccountId c) (tc_amount c)
                          (cat_id transferCategory) (tc_description c) (env_id2 env)
                          (env_clock env 5) (env_clock env 6) (env_clock env 7) of
                     Inl e \<Rightarrow> (Some e, c1, w2)
                   | Inr depositOperation \<Rightarrow>
                       (None, c1\<lparr>tc_depositOperation := Some depositOperation\<rparr>,
                        OperationRepository_save depositOperation w2))))"

definition TransferCommand_doExecute ::
  "TransferCommand \<Rightarrow> Env \<Rightarrow> World \<Rightarrow> error option \<times> TransferCommand \<times> World" where
  "TransferCommand_doExecute c env w =
     (case (InMemoryRepository_findById (tc_fromAccountId c) (accountRepo w),
            InMemoryRepository_findById (tc_toAccountId c) (accountRepo w)) of
        (None, _) \<Rightarrow>
          (Some (EntityNotFoundException ''BankAccount'' (tc_fromAccountId c)), c, w)
      | (Some p, None) \<Rightarrow>
          (Some (EntityNotFoundException ''BankAccount'' (tc_toAccountId c)), c, w)
      | (Some p, Some q) \<Rightarrow>
          (case BankAccount_transfer (heap w p) (heap w q) (tc_amount c)
                  (env_clock env 0) (env_clock env 1) of
             (Some e, a, b) \<Rightarrow> (Some e, c, setAccount q b (setAccount p a w))
           | (None, a, b) \<Rightarrow>
               (case AccountRepository_update p (setAccount q b (setAccount p a w)) of
                  (Some e, w1) \<Rightarrow> (Some e, c, w1)
                | (None, w1) \<Rightarrow>
                    (case AccountRepository_update q w1 of
                       (Some e, w2) \<Rightarrow> (Some e, c, w2)
                     | (None, w2) \<Rightarrow> TransferCommand_recordOperations c env w2))))"

text \<open>\<open>doUndo\<close> runs the transfer the other way round and does nothing else.\<close>

definition TransferCommand_doUndo ::
  "TransferCommand \<Rightarrow> Env \<Rightarrow> World \<Rightarrow> error option \<times> TransferCommand \<times> World" where
  "TransferCommand_doUndo c env w =
     (case (InMemoryRepository_findById (tc_fromAccountId c) (accountRepo w),
            InMemoryRepository_findById (tc_toAccountId c) (accountRepo w)) of
        (Some p, Some q) \<Rightarrow>
          (case BankAccount_transfer (heap w q) (heap w p) (tc_amount c)
                  (env_clock env 0) (env_clock env 1) of
             (Some e, b, a) \<Rightarrow> (Some e, c, setAccount q b (setAccount p a w))
           | (None, b, a) \<Rightarrow>
               (case AccountRepository_update p (setAccount q b (setAccount p a w)) of
                  (Some e, w1) \<Rightarrow> (Some e, c, w1)
                | (None, w1) \<Rightarrow>
                    (case AccountRepository_update q w1 of
                       (r, w2) \<Rightarrow> (r, c, w2))))
      | _ \<Rightarrow> (None, c, w))"

definition TransferCommand_execute ::
  "TransferCommand \<Rightarrow> Env \<Rightarrow> World \<Rightarrow> error option \<times> TransferCommand \<times> World" where
  "TransferCommand_execute = BaseCommand_execute TransferCommand_doExecute"

definition TransferCommand_undo ::
  "TransferCommand \<Rightarrow> Env \<Rightarrow> World \<Rightarrow> error option \<times> TransferCommand \<times> World" where
  "TransferCommand_undo = BaseCommand_undo True TransferCommand_doUndo"

section \<open>Command history\<close>

text \<open>
  \<open>CommandHistory\<close> holds shared pointers to \<open>ICommand\<close> objects and calls their virtual
  methods. The interface is a record of functions over command references \<open>'c\<close> and a
  state \<open>'w\<close> that contains the command objects and everything they act on; \<open>'x\<close> is what
  one call reads from the environment.
\<close>

record ('c, 'x, 'w) ICommand =
  icmd_execute :: "'c \<Rightarrow> 'x \<Rightarrow> 'w \<Rightarrow> error option \<times> 'w"
  icmd_undo :: "'c \<Rightarrow> 'x \<Rightarrow> 'w \<Rightarrow> error option \<times> 'w"
  icmd_canUndo :: "'c \<Rightarrow> 'w \<Rightarrow> bool"

record 'c CommandHistory =
  history :: "'c list"
  currentIndex :: nat

text \<open>
  \<open>execute\<close> erases the commands from the cursor on before it runs the command, so they
  stay erased when the command throws.
\<close>

definition CommandHistory_execute ::
  "('c, 'x, 'w) ICommand \<Rightarrow> 'c \<Rightarrow> 'x \<Rightarrow> 'c CommandHistory \<times> 'w
     \<Rightarrow> error option \<times> 'c CommandHistory \<times> 'w" where
  "CommandHistory_execute I command env hw =
     (case hw of
        (h, w) \<Rightarrow>
          (let h1 = (if currentIndex h < length (history h)
                     then h\<lparr>history := take (currentIndex h) (history h)\<rparr> else h)
           in case icmd_execute I command env w of
                (Some e, w') \<Rightarrow> (Some e, h1, w')
              | (None, w') \<Rightarrow>
                  (None,
                   h1\<lparr>history := history h1 @ [command],
                      currentIndex := length (history h1 @ [command])\<rparr>,
                   w')))"

text \<open>
  \<open>history_[currentIndex_ - 1]\<close> is read only when \<open>currentIndex_ > 0\<close>; the class keeps
  \<open>currentIndex_ \<le> history_.size()\<close>, so the index is in range.
\<close>

definition CommandHistory_canUndo ::
  "('c, 'x, 'w) ICommand \<Rightarrow> 'c CommandHistory \<times> 'w \<Rightarrow> bool" where
  "CommandHistory_canUndo I hw =
     (case hw of
        (h, w) \<Rightarrow> currentIndex h > 0 \<and> icmd_canUndo I (history h ! (currentIndex h - 1)) w)"

definition CommandHistory_canRedo :: "'c CommandHistory \<Rightarrow> bool" where
  "CommandHistory_canRedo h = (currentIndex h < length (history h))"

definition CommandHistory_undo ::
  "('c, 'x, 'w) ICommand \<Rightarrow> 'x \<Rightarrow> 'c CommandHistory \<times> 'w
     \<Rightarrow> error option \<times> 'c CommandHistory \<times> 'w" where
  "CommandHistory_undo I env hw =
     (case hw of
        (h, w) \<Rightarrow>
          if CommandHistory_canUndo I (h, w)
          then (let command = history h ! (currentIndex h - 1)
                in if icmd_canUndo I command w
                   then (case icmd_undo I command env w of
                           (Some e, w') \<Rightarrow> (Some e, h, w')
                         | (None, w') \<Rightarrow> (None, h\<lparr>currentIndex := currentIndex h - 1\<rparr>, w'))
                   else (None, h, w))
          else (None, h, w))"

definition CommandHistory_redo ::
  "('c, 'x, 'w) ICommand \<Rightarrow> 'x \<Rightarrow> 'c CommandHistory \<times> 'w
     \<Rightarrow> error option \<times> 'c CommandHistory \<times> 'w" where
  "CommandHistory_redo I env hw =
     (case hw of
        (h, w) \<Rightarrow>
          if CommandHistory_canRedo h
          then (case icmd_execute I (history h ! currentIndex h) env w of
                  (Some e, w') \<Rightarrow> (Some e, h, w')
                | (None, w') \<Rightarrow> (None, h\<lparr>currentIndex := currentIndex h + 1\<rparr>, w'))
          else (None, h, w))"

definition CommandHistory_clear :: "'c CommandHistory \<Rightarrow> 'c CommandHistory" where
  "CommandHistory_clear h = h\<lparr>history := [], currentIndex := 0\<rparr>"

text \<open>The commands strictly before the cursor.\<close>

definition applied :: "'c CommandHistory \<Rightarrow> 'c list" where
  "applied h = take (currentIndex h) (history h)"

subsection \<open>The ledger's commands behind the interface\<close>

text \<open>
  The command objects of the ledger live at addresses of their own; a virtual call
  dispatches on the class of the object found there. All three classes override
  \<open>canUndo\<close> to return \<open>true\<close>.
\<close>

datatype Command =
    CreateAccount CreateAccountCommand
  | AddOperation AddOperationCommand
  | Transfer TransferCommand

record System =
  sys_world :: World
  sys_commands :: "nat \<Rightarrow> Command"

definition Command_execute :: "nat \<Rightarrow> Env \<Rightarrow> System \<Rightarrow> error option \<times> System" where
  "Command_execute n env s =
     (case sys_commands s n of
        CreateAccount c \<Rightarrow>
          (case CreateAccountCommand_execute c env (sys_world s) of
             (r, c', w') \<Rightarrow>
               (r, \<lparr>sys_world = w', sys_commands = (sys_commands s)(n := CreateAccount c')\<rparr>))
      | AddOperation c \<Rightarrow>
          (case AddOperationCommand_execute c env (sys_world s) of
             (r, c', w') \<Rightarrow>
               (r, \<lparr>sys_world = w', sys_commands = (sys_commands s)(n := AddOperation c')\<rparr>))
      | Transfer c \<Rightarrow>
          (case TransferCommand_execute c env (sys_world s) of
             (r, c', w') \<Rightarrow>
               (r, \<lparr>sys_world = w', sys_commands = (sys_commands s)(n := Transfer c')\<rparr>)))"

definition Command_undo :: "nat \<Rightarrow> Env \<Rightarrow> System \<Rightarrow> error option \<times> System" where
  "Command_undo n env s =
     (case sys_commands s n of
        CreateAccount c \<Rightarrow>
          (case CreateAccountCommand_undo c env (sys_world s) of
             (r, c', w') \<Rightarrow>
               (r, \<lparr>sys_world = w', sys_commands = (sys_commands s)(n := CreateAccount c')\<rparr>))
      | AddOperation c \<Rightarrow>
          (case AddOperationCommand_undo c env (sys_world s) of
             (r, c', w') \<Rightarrow>
               (r, \<lparr>sys_world = w', sys_commands = (sys_commands s)(n := AddOperation c')\<rparr>))
      | Transfer c \<Rightarrow>
          (case TransferCommand_undo c env (sys_world s) of
             (r, c', w') \<Rightarrow>
               (r, \<lparr>sys_world = w', sys_commands = (sys_commands s)(n := Transfer c')\<rparr>)))"

definition Command_canUndo :: "nat \<Rightarrow> System \<Rightarrow> bool" where
  "Command_canUndo n s =
     (case sys_commands s n of
        CreateAccount c \<Rightarrow> True
      | AddOperation c \<Rightarrow> True
      | Transfer c \<Rightarrow> True)"

definition ledgerCommands :: "(nat, Env, System) ICommand" where
  "ledgerCommands =
     \<lparr>icmd_execute = Command_execute, icmd_undo = Command_undo,
      icmd_canUndo = Command_canUndo\<rparr>"

section \<open>Example values\<close>

text \<open>An amount of roubles; the examples use whole numbers, which are doubles.\<close>

definition rub :: "real \<Rightarrow> Money" where
  "rub a = \<lparr>m_amount = Finite a, m_currency = ''RUB''\<rparr>"

definition exAccount :: "Id \<Rightarrow> string \<Rightarrow> real \<Rightarrow> bool \<Rightarrow> BankAccount" where
  "exAccount i name a active =
     \<lparr>acc_id = i, acc_name = name, acc_balance = rub a, acc_accountNumber = [],
      acc_isActive = active, acc_createdAt = 0, acc_updatedAt = 0, acc_currency = ''RUB''\<rparr>"

text \<open>An environment whose clock advances by one at every reading, from \<open>10 * t\<close> on.\<close>

definition exEnv :: "DateTime \<Rightarrow> Id \<Rightarrow> Env" where
  "exEnv t i =
     \<lparr>env_clock = (\<lambda>n. 10 * t + int n), env_id = i, env_id2 = i @ ''b'',
      env_categoryId = ''CAT-T''\<rparr>"

text \<open>A ledger with the account \<open>Main\<close> holding 100000 RUB and nothing else.\<close>

definition exWorld :: World where
  "exWorld =
     \<lparr>heap = (\<lambda>p. exAccount ''ACC-1'' ''Main'' 100000 True), allocated = 1,
      accountRepo = [(''ACC-1'', 0)], operationRepo = [], categoryRepo = []\<rparr>"

text \<open>Three commands on it: an income of 50000, an expense of 5000, an income of 700.\<close>

definition exSystem :: System where
  "exSystem =
     \<lparr>sys_world = exWorld,
      sys_commands = (\<lambda>n.
        if n = 0 then AddOperation (AddOperationCommand_new INCOME ''ACC-1'' (rub 50000)
                                      ''CAT-1'' ''salary'')
        else if n = 1 then AddOperation (AddOperationCommand_new EXPENSE ''ACC-1'' (rub 5000)
                                          ''CAT-2'' ''food'')
        else AddOperation (AddOperationCommand_new INCOME ''ACC-1'' (rub 700)
                             ''CAT-1'' ''bonus''))\<rparr>"

text \<open>A fresh history, and the calls \<open>execute(0); execute(1); undo(); execute(2)\<close> on it.\<close>

definition exRun1 :: "error option \<times> nat CommandHistory \<times> System" where
  "exRun1 = CommandHistory_execute ledgerCommands 0 (exEnv 1 ''OP-1'')
              (\<lparr>history = [], currentIndex = 0\<rparr>, exSystem)"

definition exRun2 :: "error option \<times> nat CommandHistory \<times> System" where
  "exRun2 = CommandHistory_execute ledgerCommands 1 (exEnv 2 ''OP-2'') (snd exRun1)"

definition exRun3 :: "error option \<times> nat CommandHistory \<times> System" where
  "exRun3 = CommandHistory_undo ledgerCommands (exEnv 3 ''OP-3'') (snd exRun2)"

definition exRun4 :: "error option \<times> nat CommandHistory \<times> System" where
  "exRun4 = CommandHistory_execute ledgerCommands 2 (exEnv 4 ''OP-4'') (snd exRun3)"

text \<open>An empty ledger.\<close>

definition emptyWorld :: World where
  "emptyWorld =
     \<lparr>heap = (\<lambda>p. exAccount [] [] 0 False), allocated = 0,
      accountRepo = [], operationRepo = [], categoryRepo = []\<rparr>"

text \<open>An income of 50000 added to \<open>Main\<close>, and the undo of it.\<close>

definition exAdd :: "error option \<times> AddOperationCommand \<times> World" where
  "exAdd = AddOperationCommand_execute
             (AddOperationCommand_new INCOME ''ACC-1'' (rub 50000) ''CAT-1'' ''salary'')
             (exEnv 1 ''OP-1'') exWorld"

definition exAddUndo :: "error option \<times> AddOperationCommand \<times> World" where
  "exAddUndo = AddOperationCommand_undo (fst (snd exAdd)) (exEnv 2 ''OP-2'') (snd (snd exAdd))"

text \<open>
  A ledger with two accounts, \<open>Main\<close> holding 100 RUB and \<open>Savings\<close> holding 500 in the
  given currency.
\<close>

definition exWorld2 :: "bool \<Rightarrow> string \<Rightarrow> World" where
  "exWorld2 activeMain currencySavings =
     \<lparr>heap = (\<lambda>p. if p = 0 then exAccount ''ACC-1'' ''Main'' 100 activeMain
                  else (exAccount ''ACC-2'' ''Savings'' 500 True)
                         \<lparr>acc_balance := \<lparr>m_amount = Finite 500, m_currency = currencySavings\<rparr>,
                          acc_currency := currencySavings\<rparr>),
      allocated = 2, accountRepo = [(''ACC-1'', 0), (''ACC-2'', 1)], operationRepo = [],
      categoryRepo = []\<rparr>"

definition exTransfer :: "real \<Rightarrow> TransferCommand" where
  "exTransfer a = TransferCommand_new ''ACC-1'' ''ACC-2'' (rub a) str_transfer"



text \<open>
  The scenario of the reconciliation: \<open>Main\<close> is created with 100000 RUB in an empty
  ledger, then an income of 50000 and an expense of 5000 are added.
\<close>

definition exLedger0 :: "error option \<times> CreateAccountCommand \<times> World" where
  "exLedger0 = CreateAccountCommand_execute (CreateAccountCommand_new ''Main'' (rub 100000) [])
                 (exEnv 0 ''ACC-1'') emptyWorld"

definition exLedger1 :: "error option \<times> AddOperationCommand \<times> World" where
  "exLedger1 = AddOperationCommand_execute
                 (AddOperationCommand_new INCOME ''ACC-1'' (rub 50000) ''CAT-1'' ''Salary'')
                 (exEnv 1 ''OP-1'') (snd (snd exLedger0))"

definition exLedger2 :: "error option \<times> AddOperationCommand \<times> World" where
  "exLedger2 = AddOperationCommand_execute
                 (AddOperationCommand_new EXPENSE ''ACC-1'' (rub 5000) ''CAT-2'' ''Food'')
                 (exEnv 2 ''OP-2'') (snd (snd exLedger1))"


section \<open>Rounding\<close>

text \<open>
  Two facts about rounding carry the proofs below: the rounding of a result that is not
  negative is not negative, and a whole number below \<open>2^53\<close> in magnitude is a double, so
  that a sum or difference with such a value is exact.
\<close>

lemma ulp_positive: "0 < ulp x"
  by (simp add: ulp_def pow2_def)

lemma maxDouble_positive: "0 < maxDouble"
  by (simp add: maxDouble_def)

lemma roundHalfEven_of_int: "roundHalfEven (of_int z) = z"
  by (simp add: roundHalfEven_def)

lemma roundHalfEven_nonneg: "0 \<le> r \<Longrightarrow> 0 \<le> roundHalfEven r"
  by (auto simp: roundHalfEven_def Let_def)

lemma roundDouble_nonneg:
  assumes "0 \<le> x"
  shows "roundDouble x = PlusInfinity \<or> (\<exists>y. roundDouble x = Finite y \<and> 0 \<le> y)"
proof (cases "x = 0")
  case True
  then show ?thesis by (simp add: roundDouble_def)
next
  case False
  have "0 \<le> x / ulp x"
    using assms ulp_positive [of x] by simp
  then have "0 \<le> real_of_int (roundHalfEven (x / ulp x)) * ulp x"
    using roundHalfEven_nonneg [of "x / ulp x"] ulp_positive [of x] by simp
  then show ?thesis
    using False maxDouble_positive by (auto simp: roundDouble_def Let_def)
qed

lemma ulp_small:
  assumes "1 \<le> a" and "a < 2 ^ 53"
  shows "\<exists>k. ulp a = 1 / 2 ^ k"
proof -
  have pos: "0 < \<lfloor>a\<rfloor>" using assms by linarith
  have "\<lfloor>a\<rfloor> < 2 ^ 53" using assms by (simp add: floor_less_iff)
  then have up: "bitlen \<lfloor>a\<rfloor> \<le> 53"
    by (simp add: bitlen_le_iff_power)
  have low: "1 \<le> bitlen \<lfloor>a\<rfloor>"
    using pos bitlen_eq_zero_iff [of "\<lfloor>a\<rfloor>"] bitlen_nonneg [of "\<lfloor>a\<rfloor>"] by linarith
  have abs: "\<bar>a\<bar> = a" using assms by simp
  have "ulp a = pow2 (bitlen \<lfloor>a\<rfloor> - 53)"
    using assms low by (simp add: ulp_def abs binaryExponent_def max_def)
  also have "\<dots> = 1 / 2 ^ nat (53 - bitlen \<lfloor>a\<rfloor>)"
    using up by (auto simp: pow2_def)
  finally show ?thesis by blast
qed

lemma roundDouble_integer:
  assumes "x \<in> \<int>" and "\<bar>x\<bar> < 9007199254740992"
  shows "roundDouble x = Finite x"
proof (cases "x = 0")
  case True
  then show ?thesis by (simp add: roundDouble_def)
next
  case False
  from assms(1) obtain z where z: "x = of_int z" by (auto elim: Ints_cases)
  have "1 \<le> \<bar>x\<bar>" using False z by (simp flip: of_int_abs)
  moreover have "\<bar>x\<bar> < 2 ^ 53" using assms(2) by simp
  ultimately obtain k where "ulp \<bar>x\<bar> = 1 / 2 ^ k"
    using ulp_small by blast
  then have k: "ulp x = 1 / 2 ^ k"
    by (simp add: ulp_def)
  have "x / ulp x = x * 2 ^ k"
    by (simp add: k)
  also have "\<dots> = of_int (z * 2 ^ k)"
    by (simp add: z)
  finally have "roundHalfEven (x / ulp x) = z * 2 ^ k"
    by (simp only: roundHalfEven_of_int)
  then have "of_int (roundHalfEven (x / ulp x)) * ulp x = of_int (z * 2 ^ k) * (1 / 2 ^ k)"
    by (simp only: k)
  also have "\<dots> = x"
    by (simp add: z)
  finally have y: "of_int (roundHalfEven (x / ulp x)) * ulp x = x" .
  have "\<bar>x\<bar> \<le> maxDouble"
    using assms(2) by (simp add: maxDouble_def)
  then show ?thesis
    using False by (auto simp: roundDouble_def y)
qed

text \<open>
  The rounding of a value between \<open>2^k\<close> and \<open>2^(k+1)\<close> is its nearest multiple of
  \<open>2^(k-52)\<close>.
\<close>

lemma binaryExponent_eq:
  assumes "2 ^ k \<le> a" and "a < 2 ^ Suc k"
  shows "binaryExponent a = int k"
proof -
  have one: "1 \<le> a" using assms(1) one_le_power [of "2::real" k] by linarith
  have low: "2 ^ k \<le> \<lfloor>a\<rfloor>" using assms(1) by (simp add: le_floor_iff)
  have up: "\<lfloor>a\<rfloor> < 2 ^ Suc k" using assms(2) by (simp add: floor_less_iff)
  have "bitlen \<lfloor>a\<rfloor> \<le> int (Suc k)"
    using up bitlen_le_iff_power [of "\<lfloor>a\<rfloor>" "int (Suc k)"] by (simp only: nat_int) simp
  moreover have "int (Suc k) \<le> bitlen \<lfloor>a\<rfloor>"
    using low bitlen_ge_iff_power [of "int (Suc k)" "\<lfloor>a\<rfloor>"] by (simp only: nat_int) simp
  ultimately show ?thesis
    using one by (simp add: binaryExponent_def)
qed

lemma roundDouble_normal:
  assumes "2 ^ k \<le> \<bar>x\<bar>" and "\<bar>x\<bar> < 2 ^ Suc k"
  shows "roundDouble x =
     (let y = of_int (roundHalfEven (x / pow2 (int k - 52))) * pow2 (int k - 52)
      in if maxDouble < y then PlusInfinity
         else if y < - maxDouble then MinusInfinity
         else Finite y)"
proof -
  have "x \<noteq> 0"
  proof
    assume "x = 0"
    with assms(1) have "(2::real) ^ k \<le> 0" by simp
    moreover have "(0::real) < 2 ^ k" by (rule zero_less_power) simp
    ultimately show False by linarith
  qed
  moreover have "ulp x = pow2 (int k - 52)"
    by (simp add: ulp_def binaryExponent_eq [OF assms])
  ultimately show ?thesis
    by (simp add: roundDouble_def)
qed

text \<open>The double that the literal \<open>0.001\<close> denotes.\<close>

lemma literal_0_001_value: "literal_0_001 = Finite (1152921504606847 / 1152921504606846976)"
proof -
  have "bitlen 999 = 10"
    by (rule antisym) (simp_all add: bitlen_le_iff_power bitlen_ge_iff_power)
  then have spacing: "ulp (1 / 1000) = 1 / 2 ^ 62"
    by (simp add: ulp_def binaryExponent_def pow2_def)
  show ?thesis
    by (simp add: literal_0_001_def roundDouble_def spacing roundHalfEven_def maxDouble_def)
qed

section \<open>Evaluation of the examples\<close>

lemmas validator_defs =
  validateId_def validateNotEmpty_def validatePositive_def validateNonNegative_def
  validateMaxLength_def validateColor_def idChar_def hexChar_def

lemmas double_defs =
  literal_0_def literal_0_001_value roundDouble_integer

lemmas money_defs =
  Money_new_def Money_add_def Money_subtract_def Money_less_def Money_isPositive_def
  Money_equals_def Money_zero_def double_defs

lemmas entity_defs =
  BankAccount_new_def BankAccount_validate_def BankAccount_deposit_def
  BankAccount_withdraw_def BankAccount_transfer_def BankAccount_recalculateBalance_def
  Operation_new_def Operation_validate_def Operation_isIncome_def
  Category_new_def Category_validate_def
  EntityFactory_createBankAccount_def EntityFactory_createCategory_def
  EntityFactory_createOperation_def

lemmas repository_defs =
  InMemoryRepository_save_def InMemoryRepository_update_def InMemoryRepository_remove_def
  InMemoryRepository_findById_def InMemoryCategoryRepository_findByName_def
  InMemoryOperationRepository_findByAccount_def

lemmas world_defs =
  accountId_def setAccount_def make_shared_BankAccount_def AccountRepository_update_def
  OperationRepository_save_def processOperation_def checkAccountBalance_def
  BalanceReconciliationService_recalculateBalance_def

lemmas command_defs =
  BaseCommand_execute_def BaseCommand_undo_def
  CreateAccountCommand_new_def CreateAccountCommand_doExecute_def
  CreateAccountCommand_doUndo_def CreateAccountCommand_execute_def
  CreateAccountCommand_undo_def
  AddOperationCommand_new_def AddOperationCommand_doExecute_def
  AddOperationCommand_doUndo_def AddOperationCommand_execute_def AddOperationCommand_undo_def
  TransferCommand_new_def TransferCommand_transferCategory_def
  TransferCommand_recordOperations_def TransferCommand_doExecute_def
  TransferCommand_doUndo_def TransferCommand_execute_def TransferCommand_undo_def

lemmas history_defs =
  CommandHistory_execute_def CommandHistory_undo_def CommandHistory_canUndo_def
  CommandHistory_canRedo_def ledgerCommands_def Command_execute_def Command_undo_def
  Command_canUndo_def

lemmas example_defs =
  rub_def exAccount_def exEnv_def exWorld_def exSystem_def emptyWorld_def exWorld2_def
  exTransfer_def

lemmas eval_defs =
  validator_defs money_defs entity_defs repository_defs world_defs command_defs
  history_defs example_defs Let_def

section \<open>Withdrawal\<close>

lemma Money_new_amount:
  "Money_new a c = Inr m \<Longrightarrow> m_amount m = a \<and> m_currency m = c"
  by (auto simp: Money_new_def split: option.splits)

lemma Money_new_ok:
  "Money_new a c = Inr m \<longleftrightarrow> c \<noteq> [] \<and> length c \<le> 3 \<and> m = \<lparr>m_amount = a, m_currency = c\<rparr>"
  by (auto simp: Money_new_def validateNotEmpty_def validateMaxLength_def)

lemma Money_new_fail:
  "Money_new a c = Inl e \<longleftrightarrow> (c = [] \<or> 3 < length c) \<and> e = ValidationException"
  by (auto simp: Money_new_def validateNotEmpty_def validateMaxLength_def)

text \<open>
  The difference of a balance and a positive amount that the balance is not less than:
  it is never negative, and it is NaN only from a NaN or from two infinities.
\<close>

lemma difference_not_negative:
  assumes "double_less literal_0 m" and "\<not> double_less b m"
  shows "\<not> double_less (double_subtract b m) literal_0"
    and "double_subtract b m = NaN \<longleftrightarrow> b = NaN \<or> (b = PlusInfinity \<and> m = PlusInfinity)"
    and "double_subtract b m \<noteq> NaN \<Longrightarrow> double_less_eq literal_0 (double_subtract b m)"
proof -
  have finite: "\<not> double_less (roundDouble (x - y)) (Finite 0)
      \<and> roundDouble (x - y) \<noteq> NaN \<and> double_less_eq (Finite 0) (roundDouble (x - y))"
    if "y \<le> x" for x y
    using roundDouble_nonneg [of "x - y"] that by auto
  show "\<not> double_less (double_subtract b m) literal_0"
    using assms finite by (cases b; cases m) (auto simp: literal_0_def)
  show "double_subtract b m = NaN \<longleftrightarrow> b = NaN \<or> (b = PlusInfinity \<and> m = PlusInfinity)"
    using assms finite by (cases b; cases m) (auto simp: literal_0_def)
  show "double_less_eq literal_0 (double_subtract b m)" if "double_subtract b m \<noteq> NaN"
    using assms finite that by (cases b; cases m) (auto simp: literal_0_def)
qed

text \<open>
  Claim C2, as the code has it. The guards of \<open>withdraw\<close> answer in their order: an inactive
  account throws the domain exception; an active one asked for an amount in another
  currency, or for an amount that is not positive (zero, negative or NaN), throws the
  validation exception; an active account whose balance is in its currency and is less
  than a positive amount in that currency throws the insufficient-funds exception, which
  carries the amount and the balance. Whenever the balance is less than the amount the
  withdrawal throws, and a withdrawal that throws leaves the account as it was, in every
  field. The withdrawal returns exactly when every guard passes and the currency code is
  one the \<open>Money\<close> constructor accepts; it then leaves the double difference of the old
  balance and the amount, and changes nothing else but the modification time. That
  difference is never negative. It is NaN exactly when the old balance is NaN or the old
  balance and the amount are both positive infinity (neither is less than the amount);
  otherwise it is at least zero.
\<close>

theorem withdraw_guarded:
  assumes "BankAccount_withdraw a amount now = (r, a')"
  shows "(\<not> acc_isActive a \<longrightarrow> r = Some DomainException)
       \<and> (acc_isActive a \<and> m_currency amount \<noteq> acc_currency a
            \<longrightarrow> r = Some ValidationException)
       \<and> (acc_isActive a \<and> \<not> double_less literal_0 (m_amount amount)
            \<longrightarrow> r = Some ValidationException)
       \<and> (acc_isActive a \<and> m_currency amount = acc_currency a
          \<and> m_currency (acc_balance a) = acc_currency a
          \<and> double_less literal_0 (m_amount amount)
          \<and> double_less (m_amount (acc_balance a)) (m_amount amount) \<longrightarrow>
            r = Some (InsufficientFundsException (m_amount amount) (m_amount (acc_balance a))))
       \<and> (double_less (m_amount (acc_balance a)) (m_amount amount) \<longrightarrow> r \<noteq> None)
       \<and> (r \<noteq> None \<longrightarrow> a' = a)
       \<and> (r = None \<longleftrightarrow>
            acc_isActive a \<and> m_currency amount = acc_currency a
          \<and> double_less literal_0 (m_amount amount)
          \<and> m_currency (acc_balance a) = acc_currency a
          \<and> \<not> double_less (m_amount (acc_balance a)) (m_amount amount)
          \<and> acc_currency a \<noteq> [] \<and> length (acc_currency a) \<le> 3)
       \<and> (r = None \<longrightarrow>
            a' = a\<lparr>acc_balance :=
                     \<lparr>m_amount = double_subtract (m_amount (acc_balance a)) (m_amount amount),
                      m_currency = acc_currency a\<rparr>,
                   acc_updatedAt := now\<rparr>
          \<and> \<not> double_less (m_amount (acc_balance a')) literal_0
          \<and> (m_amount (acc_balance a') = NaN \<longleftrightarrow>
                m_amount (acc_balance a) = NaN
              \<or> (m_amount (acc_balance a) = PlusInfinity \<and> m_amount amount = PlusInfinity))
          \<and> (m_amount (acc_balance a') \<noteq> NaN
                \<longrightarrow> double_less_eq literal_0 (m_amount (acc_balance a'))))"
proof -
  let ?b = "m_amount (acc_balance a)" and ?m = "m_amount amount"
  have guards: "(\<not> acc_isActive a \<longrightarrow> r = Some DomainException)
       \<and> (acc_isActive a \<and> m_currency amount \<noteq> acc_currency a
            \<longrightarrow> r = Some ValidationException)
       \<and> (acc_isActive a \<and> \<not> double_less literal_0 ?m \<longrightarrow> r = Some ValidationException)
       \<and> (acc_isActive a \<and> m_currency amount = acc_currency a
          \<and> m_currency (acc_balance a) = acc_currency a
          \<and> double_less literal_0 ?m \<and> double_less ?b ?m \<longrightarrow>
            r = Some (InsufficientFundsException ?m ?b))
       \<and> (double_less ?b ?m \<longrightarrow> r \<noteq> None)
       \<and> (r \<noteq> None \<longrightarrow> a' = a)"
    using assms
    by (auto simp: BankAccount_withdraw_def Money_less_def Money_subtract_def
          Money_isPositive_def split: if_splits sum.splits bool.splits)
  have returns: "r = None \<longleftrightarrow>
            acc_isActive a \<and> m_currency amount = acc_currency a
          \<and> double_less literal_0 ?m
          \<and> m_currency (acc_balance a) = acc_currency a
          \<and> \<not> double_less ?b ?m
          \<and> acc_currency a \<noteq> [] \<and> length (acc_currency a) \<le> 3"
    using assms
    by (auto simp: BankAccount_withdraw_def Money_less_def Money_subtract_def
          Money_isPositive_def Money_new_ok Money_new_fail
          split: if_splits sum.splits bool.splits)
  have result: "a' = a\<lparr>acc_balance := \<lparr>m_amount = double_subtract ?b ?m,
                                         m_currency = acc_currency a\<rparr>,
                        acc_updatedAt := now\<rparr>"
    if "r = None"
    using assms that
    by (auto simp: BankAccount_withdraw_def Money_less_def Money_subtract_def
          Money_isPositive_def Money_new_ok split: if_splits sum.splits bool.splits)
  have sign: "\<not> double_less (m_amount (acc_balance a')) literal_0
          \<and> (m_amount (acc_balance a') = NaN \<longleftrightarrow>
                ?b = NaN \<or> (?b = PlusInfinity \<and> ?m = PlusInfinity))
          \<and> (m_amount (acc_balance a') \<noteq> NaN
                \<longrightarrow> double_less_eq literal_0 (m_amount (acc_balance a')))"
    if none: "r = None"
  proof -
    from none returns have "double_less literal_0 ?m" and "\<not> double_less ?b ?m"
      by simp_all
    from difference_not_negative [OF this] show ?thesis
      by (simp add: result [OF none])
  qed
  from guards returns result sign show ?thesis
    by blast
qed

theorem withdraw_guarded_witness:
  "BankAccount_withdraw (exAccount ''ACC-1'' ''Main'' 100 True) (rub 200) 7
     = (Some (InsufficientFundsException (Finite 200) (Finite 100)),
        exAccount ''ACC-1'' ''Main'' 100 True)
   \<and> BankAccount_withdraw (exAccount ''ACC-1'' ''Main'' 100 True) (rub 30) 7
     = (None, (exAccount ''ACC-1'' ''Main'' 100 True)\<lparr>acc_balance := rub 70, acc_updatedAt := 7\<rparr>)
   \<and> BankAccount_withdraw (exAccount ''ACC-1'' ''Main'' 100 True)
        \<lparr>m_amount = NaN, m_currency = ''RUB''\<rparr> 7
     = (Some ValidationException, exAccount ''ACC-1'' ''Main'' 100 True)
   \<and> m_amount (acc_balance (snd (BankAccount_withdraw
        ((exAccount ''ACC-1'' ''Main'' 100 True)
           \<lparr>acc_balance := \<lparr>m_amount = PlusInfinity, m_currency = ''RUB''\<rparr>\<rparr>)
        \<lparr>m_amount = PlusInfinity, m_currency = ''RUB''\<rparr> 7))) = NaN"
proof -
  let ?a = "exAccount ''ACC-1'' ''Main'' 100 True"
  let ?inf = "\<lparr>m_amount = PlusInfinity, m_currency = ''RUB''\<rparr>"
  let ?nan = "\<lparr>m_amount = NaN, m_currency = ''RUB''\<rparr>"
  have run: "BankAccount_withdraw b amount 7
      = (fst (BankAccount_withdraw b amount 7), snd (BankAccount_withdraw b amount 7))"
    for b amount
    by simp
  have "fst (BankAccount_withdraw ?a (rub 200) 7)
          = Some (InsufficientFundsException (Finite 200) (Finite 100))
        \<and> snd (BankAccount_withdraw ?a (rub 200) 7) = ?a"
    using withdraw_guarded [OF run [of ?a "rub 200"]]
    by (simp add: exAccount_def rub_def literal_0_def)
  moreover have "fst (BankAccount_withdraw ?a (rub 30) 7) = None
        \<and> snd (BankAccount_withdraw ?a (rub 30) 7)
            = ?a\<lparr>acc_balance := rub 70, acc_updatedAt := 7\<rparr>"
    using withdraw_guarded [OF run [of ?a "rub 30"]]
    by (simp add: exAccount_def rub_def double_defs)
  moreover have "fst (BankAccount_withdraw ?a ?nan 7) = Some ValidationException
        \<and> snd (BankAccount_withdraw ?a ?nan 7) = ?a"
    using withdraw_guarded [OF run [of ?a ?nan]]
    by (simp add: exAccount_def rub_def literal_0_def)
  moreover have "m_amount (acc_balance (snd (BankAccount_withdraw
        (?a\<lparr>acc_balance := ?inf\<rparr>) ?inf 7))) = NaN"
    using withdraw_guarded [OF run [of "?a\<lparr>acc_balance := ?inf\<rparr>" ?inf]]
    by (simp add: exAccount_def rub_def literal_0_def)
  ultimately show ?thesis
    by (metis prod.collapse)
qed

text \<open>
  Claim C2 as stated fails: an inactive account asked for more than its balance answers
  with the domain exception of the first guard, not with the insufficient-funds one.
\<close>

theorem withdraw_inactive_counterexample:
  "double_less (m_amount (acc_balance (exAccount ''ACC-1'' ''Main'' 100 False)))
     (m_amount (rub 200))
   \<and> fst (BankAccount_withdraw (exAccount ''ACC-1'' ''Main'' 100 False) (rub 200) 7)
       = Some DomainException
   \<and> fst (BankAccount_withdraw (exAccount ''ACC-1'' ''Main'' 100 False) (rub 200) 7)
       \<noteq> Some (InsufficientFundsException (Finite 200) (Finite 100))"
  by (simp add: BankAccount_withdraw_def exAccount_def rub_def)
section \<open>Repository update\<close>

text \<open>
  Claim C9. \<open>update\<close> throws the not-found exception exactly when no entity is stored under
  the entity's identifier, and then the storage is as it was. When one is stored, \<open>update\<close>
  returns, the identifier maps to the new entity, every other identifier maps to what it
  mapped to before, and the keys are the same.
\<close>

theorem update_not_found_iff:
  "(fst (InMemoryRepository_update getId e storage)
      = Some (EntityNotFoundException ''Entity'' (getId e))
    \<longleftrightarrow> InMemoryRepository_findById (getId e) storage = None)
   \<and> (fst (InMemoryRepository_update getId e storage) \<noteq> None
    \<longleftrightarrow> InMemoryRepository_findById (getId e) storage = None)
   \<and> (InMemoryRepository_findById (getId e) storage = None
    \<longrightarrow> snd (InMemoryRepository_update getId e storage) = storage)
   \<and> (InMemoryRepository_findById (getId e) storage \<noteq> None
    \<longrightarrow> InMemoryRepository_findById (getId e) (snd (InMemoryRepository_update getId e storage))
          = Some e
      \<and> (\<forall>k. k \<noteq> getId e
            \<longrightarrow> InMemoryRepository_findById k (snd (InMemoryRepository_update getId e storage))
                = InMemoryRepository_findById k storage)
      \<and> map fst (snd (InMemoryRepository_update getId e storage)) = map fst storage)"
proof (cases "map_of storage (getId e)")
  case None
  then show ?thesis
    by (simp add: InMemoryRepository_update_def InMemoryRepository_findById_def)
next
  case (Some old)
  then have "getId e \<in> fst ` set storage"
    by (metis map_of_eq_None_iff option.distinct(1))
  with Some show ?thesis
    by (simp add: InMemoryRepository_update_def InMemoryRepository_findById_def
          update_conv' update_keys)
qed

theorem update_not_found_iff_witness:
  "InMemoryRepository_update fst (''B'', 5::nat) [(''A'', (''A'', 1))]
     = (Some (EntityNotFoundException ''Entity'' ''B''), [(''A'', (''A'', 1))])
   \<and> InMemoryRepository_update fst (''A'', 5::nat) [(''A'', (''A'', 1))]
     = (None, [(''A'', (''A'', 5))])"
  using update_not_found_iff [of fst "(''B'', 5::nat)" "[(''A'', (''A'', 1))]"]
        update_not_found_iff [of fst "(''A'', 5::nat)" "[(''A'', (''A'', 1))]"]
  by (simp add: InMemoryRepository_update_def)

section \<open>Cache coherence\<close>

text \<open>
  Claim C6. When an entity with the identifier of \<open>e\<close> is in the underlying repository,
  \<open>update\<close> on the proxy returns, stores \<open>e\<close> in the repository and replaces the cache entry
  for the identifier by \<open>e\<close> with a new expiry time; a \<open>findById\<close> after it returns \<open>e\<close>,
  whatever the cache held before and whatever the two clock readings are.
\<close>

theorem cache_update_then_find:
  assumes "InMemoryRepository_findById (getId e) (realRepository proxy) \<noteq> None"
  shows "fst (CachingRepositoryProxy_update getId e t1 proxy) = None
       \<and> InMemoryRepository_findById (getId e)
           (realRepository (snd (CachingRepositoryProxy_update getId e t1 proxy))) = Some e
       \<and> map_of (cache (snd (CachingRepositoryProxy_update getId e t1 proxy))) (getId e)
           = Some (e, t1 + cacheDuration proxy)
       \<and> fst (CachingRepositoryProxy_findById getId (getId e) t2
                (snd (CachingRepositoryProxy_update getId e t1 proxy))) = Some e"
  using assms
  by (auto simp: CachingRepositoryProxy_update_def CachingRepositoryProxy_findById_def
        CachingRepositoryProxy_cacheEntity_def InMemoryRepository_update_def
        InMemoryRepository_findById_def update_conv' Let_def split: option.splits)

theorem cache_update_then_find_witness:
  "fst (CachingRepositoryProxy_findById fst ''A'' 3
          \<lparr>realRepository = [(''A'', (''A'', 1::nat))], cache = [(''A'', (''A'', 1), 100)],
           cacheDuration = 60\<rparr>) = Some (''A'', 1)
   \<and> fst (CachingRepositoryProxy_findById fst ''A'' 11
          (snd (CachingRepositoryProxy_update fst (''A'', 2) 10
                  \<lparr>realRepository = [(''A'', (''A'', 1::nat))],
                   cache = [(''A'', (''A'', 1), 100)], cacheDuration = 60\<rparr>)))
       = Some (''A'', 2)"
proof -
  have present: "InMemoryRepository_findById (fst (''A'', 2::nat))
      (realRepository \<lparr>realRepository = [(''A'', (''A'', 1::nat))],
         cache = [(''A'', (''A'', 1), 100)], cacheDuration = 60\<rparr>) \<noteq> None"
    by (simp add: InMemoryRepository_findById_def)
  have stale: "fst (CachingRepositoryProxy_findById fst ''A'' 3
          \<lparr>realRepository = [(''A'', (''A'', 1::nat))], cache = [(''A'', (''A'', 1), 100)],
           cacheDuration = 60\<rparr>) = Some (''A'', 1)"
    by (simp add: CachingRepositoryProxy_findById_def CacheEntry_isExpired_def)
  from cache_update_then_find [of fst "(''A'', 2::nat)" _ 10 11, OF present] stale
  show ?thesis by simp
qed

section \<open>Command history\<close>

lemma history_execute_ok:
  assumes "CommandHistory_execute I c x (h, w) = (None, h', w')"
  shows "history h' = applied h @ [c]" and "currentIndex h' = length (history h')"
    and "icmd_execute I c x w = (None, w')"
  using assms
  by (auto simp: CommandHistory_execute_def applied_def Let_def
           split: prod.splits option.splits if_splits)

lemma history_undo_ok:
  assumes "CommandHistory_undo I x (h, w) = (None, h', w')"
    and "currentIndex h = length (history h)" and "history h = hs @ [c]"
    and "icmd_canUndo I c w"
  shows "history h' = hs @ [c]" and "currentIndex h' = length hs"
    and "icmd_undo I c x w = (None, w')"
  using assms
  by (auto simp: CommandHistory_undo_def CommandHistory_canUndo_def Let_def
           split: prod.splits option.splits if_splits)

text \<open>
  Claim C5. From any history, when the four calls \<open>execute(A)\<close>, \<open>execute(B)\<close>, \<open>undo()\<close>,
  \<open>execute(C)\<close> return and \<open>B\<close> is undoable, the history is what was applied before,
  followed by \<open>A\<close> and \<open>C\<close>; the cursor is at its end, so nothing can be redone, and \<open>B\<close>
  is not in it (unless \<open>B\<close> is \<open>A\<close> or \<open>C\<close> or was applied before). With nothing applied
  at the start the applied sequence is exactly \<open>[A, C]\<close>. The undo in the middle is the
  undo of \<open>B\<close>.
\<close>

theorem history_discards_undone:
  assumes "CommandHistory_execute I A x1 (h, w) = (None, h1, w1)"
    and "CommandHistory_execute I B x2 (h1, w1) = (None, h2, w2)"
    and "icmd_canUndo I B w2"
    and "CommandHistory_undo I x3 (h2, w2) = (None, h3, w3)"
    and "CommandHistory_execute I C x4 (h3, w3) = (None, h4, w4)"
  shows "history h4 = applied h @ [A, C]
       \<and> applied h4 = applied h @ [A, C]
       \<and> currentIndex h4 = length (history h4)
       \<and> \<not> CommandHistory_canRedo h4
       \<and> (applied h = [] \<longrightarrow> applied h4 = [A, C])
       \<and> (B \<noteq> A \<and> B \<noteq> C \<and> B \<notin> set (applied h) \<longrightarrow> B \<notin> set (history h4))
       \<and> icmd_undo I B x3 w2 = (None, w3)"
proof -
  note s1 = history_execute_ok [OF assms(1)]
  note s2 = history_execute_ok [OF assms(2)]
  have "applied h1 = history h1"
    using s1(2) by (simp add: applied_def)
  then have hist2: "history h2 = (applied h @ [A]) @ [B]"
    using s1(1) s2(1) by simp
  note s3 = history_undo_ok [OF assms(4) s2(2) hist2 assms(3)]
  have app3: "applied h3 = applied h @ [A]"
    using s3(1,2) unfolding applied_def [of h3] by simp
  note s4 = history_execute_ok [OF assms(5)]
  have hist4: "history h4 = applied h @ [A, C]"
    using s4(1) app3 by simp
  have app4: "applied h4 = history h4"
    using s4(2) by (simp add: applied_def)
  show ?thesis
    using hist4 app4 s4(2) s3(3)
    by (auto simp: CommandHistory_canRedo_def)
qed

theorem history_discards_undone_witness:
  "history (fst (snd exRun4)) = [0, 2] \<and> currentIndex (fst (snd exRun4)) = 2
   \<and> 1 \<notin> set (history (fst (snd exRun4)))"
proof -
  have a1: "CommandHistory_execute ledgerCommands 0 (exEnv 1 ''OP-1'')
              (\<lparr>history = [], currentIndex = 0\<rparr>, exSystem)
            = (None, fst (snd exRun1), snd (snd exRun1))"
    by (simp add: exRun1_def eval_defs)
  have a2: "CommandHistory_execute ledgerCommands 1 (exEnv 2 ''OP-2'')
              (fst (snd exRun1), snd (snd exRun1))
            = (None, fst (snd exRun2), snd (snd exRun2))"
    by (simp add: exRun1_def exRun2_def eval_defs)
  have cu: "icmd_canUndo ledgerCommands 1 (snd (snd exRun2))"
    by (simp add: exRun1_def exRun2_def eval_defs)
  have a3: "CommandHistory_undo ledgerCommands (exEnv 3 ''OP-3'')
              (fst (snd exRun2), snd (snd exRun2))
            = (None, fst (snd exRun3), snd (snd exRun3))"
    by (simp add: exRun1_def exRun2_def exRun3_def eval_defs)
  have a4: "CommandHistory_execute ledgerCommands 2 (exEnv 4 ''OP-4'')
              (fst (snd exRun3), snd (snd exRun3))
            = (None, fst (snd exRun4), snd (snd exRun4))"
    by (simp add: exRun1_def exRun2_def exRun3_def exRun4_def eval_defs)
  from history_discards_undone [OF a1 a2 cu a3 a4]
  show ?thesis by (simp add: applied_def)
qed

section \<open>Account creation\<close>

lemma first_error_None: "first_error cs = None \<longleftrightarrow> (\<forall>c \<in> set cs. c = None)"
  by (induction cs rule: first_error.induct) auto

text \<open>
  Claim C7, as the code has it. Executing a fresh \<open>CreateAccountCommand\<close> throws the
  validation exception when the name is empty or the initial amount is less than zero, and
  every failure is a validation exception that leaves the ledger and the command as they
  were. The command succeeds exactly when the name has between 1 and 100 bytes, the
  initial amount is not less than zero (which a NaN amount is not: it is accepted), the
  account number has at most 20 bytes and the generated identifier is well formed; the new
  account then has the given name, balance and number, is active, carries the first two
  readings of the clock as its creation and modification times, and is stored under the
  generated identifier.
\<close>

theorem create_account_validated:
  assumes "\<not> executed c"
    and "CreateAccountCommand_execute c env w = (r, c', w')"
  shows "(cac_accountName c = [] \<or> double_less (m_amount (cac_initialBalance c)) literal_0
            \<longrightarrow> r = Some ValidationException)
       \<and> (r \<noteq> None \<longrightarrow> r = Some ValidationException \<and> w' = w \<and> c' = c)
       \<and> (r = None \<longleftrightarrow>
            cac_accountName c \<noteq> [] \<and> length (cac_accountName c) \<le> 100
          \<and> \<not> double_less (m_amount (cac_initialBalance c)) literal_0
          \<and> length (cac_accountNumber c) \<le> 20
          \<and> env_id env \<noteq> [] \<and> list_all idChar (env_id env))
       \<and> (r = None \<longrightarrow>
            InMemoryRepository_findById (env_id env) (accountRepo w') = Some (allocated w)
          \<and> heap w' (allocated w)
              = \<lparr>acc_id = env_id env, acc_name = cac_accountName c,
                 acc_balance = cac_initialBalance c,
                 acc_accountNumber = cac_accountNumber c, acc_isActive = True,
                 acc_createdAt = env_clock env 0, acc_updatedAt = env_clock env 1,
                 acc_currency = m_currency (cac_initialBalance c)\<rparr>
          \<and> cac_createdAccount c' = Some (allocated w) \<and> executed c')"
  using assms
  by (auto simp: CreateAccountCommand_execute_def BaseCommand_execute_def
        CreateAccountCommand_doExecute_def EntityFactory_createBankAccount_def
        BankAccount_new_def BankAccount_validate_def validator_defs
        make_shared_BankAccount_def accountId_def InMemoryRepository_save_def
        InMemoryRepository_findById_def update_conv' Let_def
        split: if_splits option.splits sum.splits prod.splits)

theorem create_account_validated_witness:
  "fst (CreateAccountCommand_execute (CreateAccountCommand_new ''Main'' (rub 100000) [])
          (exEnv 0 ''ACC-1'') emptyWorld) = None
   \<and> accountRepo (snd (snd (CreateAccountCommand_execute
          (CreateAccountCommand_new ''Main'' (rub 100000) []) (exEnv 0 ''ACC-1'') emptyWorld)))
       = [(''ACC-1'', 0)]
   \<and> heap (snd (snd (CreateAccountCommand_execute
          (CreateAccountCommand_new ''Main'' (rub 100000) []) (exEnv 0 ''ACC-1'') emptyWorld))) 0
       = (exAccount ''ACC-1'' ''Main'' 100000 True)\<lparr>acc_createdAt := 0, acc_updatedAt := 1\<rparr>
   \<and> CreateAccountCommand_execute (CreateAccountCommand_new [] (rub 100000) [])
          (exEnv 0 ''ACC-1'') emptyWorld
       = (Some ValidationException, CreateAccountCommand_new [] (rub 100000) [], emptyWorld)
   \<and> CreateAccountCommand_execute (CreateAccountCommand_new ''Main'' (rub (- 1)) [])
          (exEnv 0 ''ACC-1'') emptyWorld
       = (Some ValidationException, CreateAccountCommand_new ''Main'' (rub (- 1)) [],
          emptyWorld)
   \<and> fst (CreateAccountCommand_execute
          (CreateAccountCommand_new ''Main'' \<lparr>m_amount = NaN, m_currency = ''RUB''\<rparr> [])
          (exEnv 0 ''ACC-1'') emptyWorld) = None"
proof -
  let ?nan = "\<lparr>m_amount = NaN, m_currency = ''RUB''\<rparr>"
  have fresh: "\<not> executed (CreateAccountCommand_new name balance [])" for name balance
    by (simp add: CreateAccountCommand_new_def)
  have run: "CreateAccountCommand_execute c (exEnv 0 ''ACC-1'') emptyWorld
     = (fst (CreateAccountCommand_execute c (exEnv 0 ''ACC-1'') emptyWorld),
        fst (snd (CreateAccountCommand_execute c (exEnv 0 ''ACC-1'') emptyWorld)),
        snd (snd (CreateAccountCommand_execute c (exEnv 0 ''ACC-1'') emptyWorld)))" for c
    by simp
  note created = create_account_validated
    [OF fresh [of "''Main''" "rub 100000"]
        run [of "CreateAccountCommand_new ''Main'' (rub 100000) []"]]
  note unnamed = create_account_validated
    [OF fresh [of "[]" "rub 100000"] run [of "CreateAccountCommand_new [] (rub 100000) []"]]
  note negative = create_account_validated
    [OF fresh [of "''Main''" "rub (- 1)"]
        run [of "CreateAccountCommand_new ''Main'' (rub (- 1)) []"]]
  note undefined = create_account_validated
    [OF fresh [of "''Main''" ?nan] run [of "CreateAccountCommand_new ''Main'' ?nan []"]]
  have ok: "fst (CreateAccountCommand_execute (CreateAccountCommand_new ''Main'' (rub 100000) [])
          (exEnv 0 ''ACC-1'') emptyWorld) = None"
    using created
    by (simp add: CreateAccountCommand_new_def rub_def exEnv_def idChar_def literal_0_def)
  have stored: "accountRepo (snd (snd (CreateAccountCommand_execute
          (CreateAccountCommand_new ''Main'' (rub 100000) []) (exEnv 0 ''ACC-1'') emptyWorld)))
       = [(''ACC-1'', 0)]"
    by (simp add: eval_defs)
  have account: "heap (snd (snd (CreateAccountCommand_execute
          (CreateAccountCommand_new ''Main'' (rub 100000) []) (exEnv 0 ''ACC-1'') emptyWorld))) 0
       = (exAccount ''ACC-1'' ''Main'' 100000 True)\<lparr>acc_createdAt := 0, acc_updatedAt := 1\<rparr>"
    using created ok
    by (simp add: CreateAccountCommand_new_def rub_def exEnv_def exAccount_def emptyWorld_def)
  have e1: "CreateAccountCommand_execute (CreateAccountCommand_new [] (rub 100000) [])
          (exEnv 0 ''ACC-1'') emptyWorld
       = (Some ValidationException, CreateAccountCommand_new [] (rub 100000) [], emptyWorld)"
    using unnamed
    by (metis (no_types, lifting) CreateAccountCommand.select_convs(1)
          CreateAccountCommand_new_def option.distinct(1) prod.collapse)
  have e2: "CreateAccountCommand_execute (CreateAccountCommand_new ''Main'' (rub (- 1)) [])
          (exEnv 0 ''ACC-1'') emptyWorld
       = (Some ValidationException, CreateAccountCommand_new ''Main'' (rub (- 1)) [],
          emptyWorld)"
  proof -
    have "double_less (m_amount (cac_initialBalance
            (CreateAccountCommand_new ''Main'' (rub (- 1)) []))) literal_0"
      by (simp add: CreateAccountCommand_new_def rub_def literal_0_def)
    with negative show ?thesis
      by (metis option.distinct(1) prod.collapse)
  qed
  have e3: "fst (CreateAccountCommand_execute (CreateAccountCommand_new ''Main'' ?nan [])
          (exEnv 0 ''ACC-1'') emptyWorld) = None"
    using undefined
    by (simp add: CreateAccountCommand_new_def exEnv_def idChar_def literal_0_def)
  from ok stored account e1 e2 e3 show ?thesis
    by blast
qed

text \<open>
  Claim C7 as stated fails: a name of 101 bytes is not empty and a balance of 0 is not
  negative, yet the creation throws the validation exception and nothing is stored.
\<close>

theorem create_account_long_name_counterexample:
  "cac_accountName (CreateAccountCommand_new (replicate 101 (CHR ''a'')) (rub 0) []) \<noteq> []
   \<and> \<not> double_less (m_amount (cac_initialBalance
            (CreateAccountCommand_new (replicate 101 (CHR ''a'')) (rub 0) []))) literal_0
   \<and> CreateAccountCommand_execute
        (CreateAccountCommand_new (replicate 101 (CHR ''a'')) (rub 0) [])
        (exEnv 0 ''ACC-1'') emptyWorld
     = (Some ValidationException,
        CreateAccountCommand_new (replicate 101 (CHR ''a'')) (rub 0) [], emptyWorld)"
  by (simp add: eval_defs)
section \<open>Undo of AddOperation\<close>

lemma deposit_fail: "BankAccount_deposit a m now = (Some e, a') \<Longrightarrow> a' = a"
  by (auto simp: BankAccount_deposit_def split: if_splits sum.splits)

lemma withdraw_fail: "BankAccount_withdraw a m now = (Some e, a') \<Longrightarrow> a' = a"
  by (auto simp: BankAccount_withdraw_def split: if_splits sum.splits bool.splits)

lemma deposit_ok:
  assumes "BankAccount_deposit a m now = (None, a')"
  shows "a' = a\<lparr>acc_balance :=
                    \<lparr>m_amount = double_add (m_amount (acc_balance a)) (m_amount m),
                     m_currency = acc_currency a\<rparr>,
                  acc_updatedAt := now\<rparr>"
    and "acc_isActive a" and "m_currency m = acc_currency a"
    and "m_currency (acc_balance a) = acc_currency a"
    and "double_less literal_0 (m_amount m)"
    and "acc_currency a \<noteq> []" and "length (acc_currency a) \<le> 3"
  using assms
  by (auto simp: BankAccount_deposit_def Money_add_def Money_new_def Money_isPositive_def
        validateNotEmpty_def validateMaxLength_def split: if_splits sum.splits)

lemma withdraw_ok:
  assumes "BankAccount_withdraw a m now = (None, a')"
  shows "a' = a\<lparr>acc_balance :=
                    \<lparr>m_amount = double_subtract (m_amount (acc_balance a)) (m_amount m),
                     m_currency = acc_currency a\<rparr>,
                  acc_updatedAt := now\<rparr>"
    and "acc_isActive a" and "m_currency m = acc_currency a"
    and "m_currency (acc_balance a) = acc_currency a"
    and "double_less literal_0 (m_amount m)"
    and "acc_currency a \<noteq> []" and "length (acc_currency a) \<le> 3"
    and "\<not> double_less (m_amount (acc_balance a)) (m_amount m)"
  using assms
  by (auto simp: BankAccount_withdraw_def Money_subtract_def Money_less_def Money_new_def
        Money_isPositive_def validateNotEmpty_def validateMaxLength_def
        split: if_splits sum.splits bool.splits)

lemma createOperation_ok:
  assumes "EntityFactory_createOperation type bid amount cid descr gid date now1 now2
             = Inr operation"
  shows "operation = \<lparr>op_id = gid, op_type = type, op_bankAccountId = bid, op_amount = amount,
             op_date = date, op_description = descr, op_categoryId = cid,
             op_createdAt = now1, op_updatedAt = now2, op_isRecurring = False,
             op_recurringPattern = []\<rparr>"
    and "double_less literal_0 (m_amount amount)"
  using assms
  by (auto simp: EntityFactory_createOperation_def Operation_new_def Let_def
        Operation_validate_def Money_isPositive_def first_error_None
        split: if_splits option.splits)

lemma processOperation_ok:
  assumes "processOperation operation now w = (None, w')"
  obtains p a' where "map_of (accountRepo w) (op_bankAccountId operation) = Some p"
    and "(if op_type operation = INCOME
          then BankAccount_deposit (heap w p) (op_amount operation) now
          else BankAccount_withdraw (heap w p) (op_amount operation) now) = (None, a')"
    and "map_of (accountRepo w) (acc_id a') \<noteq> None"
    and "w' = w\<lparr>heap := (heap w)(p := a'),
                operationRepo := AList.update (op_id operation) operation (operationRepo w),
                accountRepo := AList.update (acc_id a') p (accountRepo w)\<rparr>"
  using assms
  by (auto simp: processOperation_def InMemoryRepository_findById_def Operation_isIncome_def
        setAccount_def OperationRepository_save_def AccountRepository_update_def
        InMemoryRepository_update_def InMemoryRepository_save_def accountId_def
        split: option.splits prod.splits if_splits)

lemma addOperation_execute_ok:
  assumes "AddOperationCommand_execute c env w = (None, c1, w1)"
  obtains p operation where "map_of (accountRepo w) (aoc_bankAccountId c) = Some p"
    and "EntityFactory_createOperation (aoc_type c) (aoc_bankAccountId c) (aoc_amount c)
           (aoc_categoryId c) (aoc_description c) (env_id env)
           (env_clock env 0) (env_clock env 1) (env_clock env 2) = Inr operation"
    and "processOperation operation (env_clock env 3) w = (None, w1)"
    and "c1 = c\<lparr>executed := True, aoc_createdOperation := Some operation, aoc_account := Some p, 
                 aoc_previousBalance := acc_balance (heap w p)\<rparr>"
    and "\<not> executed c"
  using assms
  by (auto simp: AddOperationCommand_execute_def BaseCommand_execute_def
        AddOperationCommand_doExecute_def InMemoryRepository_findById_def Let_def
        split: option.splits prod.splits if_splits sum.splits)

lemma addOperation_undo_unfold:
  assumes "executed c1" and "aoc_createdOperation c1 = Some operation"
    and "aoc_account c1 = Some p"
  shows "AddOperationCommand_undo c1 env wx =
     (if m_currency (aoc_previousBalance c1) \<noteq> acc_currency (heap wx p)
      then (Some ValidationException, c1,
            wx\<lparr>operationRepo := AList.delete (op_id operation) (operationRepo wx)\<rparr>)
      else if map_of (accountRepo wx) (acc_id (heap wx p)) = None
      then (Some (EntityNotFoundException ''Entity'' (acc_id (heap wx p))), c1,
            wx\<lparr>operationRepo := AList.delete (op_id operation) (operationRepo wx),
               heap := (heap wx)(p := (heap wx p)\<lparr>acc_balance := aoc_previousBalance c1,
                                                    acc_updatedAt := env_clock env 0\<rparr>)\<rparr>)
      else (None, c1\<lparr>aoc_createdOperation := None, executed := False\<rparr>,
            wx\<lparr>operationRepo := AList.delete (op_id operation) (operationRepo wx),
               heap := (heap wx)(p := (heap wx p)\<lparr>acc_balance := aoc_previousBalance c1,
                                                    acc_updatedAt := env_clock env 0\<rparr>),
               accountRepo := AList.update (acc_id (heap wx p)) p (accountRepo wx)\<rparr>))"
  using assms
  by (auto simp: AddOperationCommand_undo_def BaseCommand_undo_def
        AddOperationCommand_doUndo_def BankAccount_recalculateBalance_def
        InMemoryRepository_remove_def setAccount_def AccountRepository_update_def
        InMemoryRepository_update_def accountId_def Let_def
        split: option.splits)

text \<open>
  Claim C3. When \<open>execute\<close> of an \<open>AddOperationCommand\<close> has returned, the command holds the
  created operation, which is stored under the generated identifier, the target account
  and the balance the account had before. An \<open>undo\<close> right after it returns and leaves
  the account in the repository; and whenever an \<open>undo\<close> of the executed command returns,
  from the world after \<open>execute\<close> or from any later one, the created operation is no longer
  stored, no other operation is touched, the account's balance is the very \<open>Money\<close> value
  of the snapshot (it is assigned, nothing is computed), and the command is not executed
  any more.
\<close>

theorem addOperation_undo_restores:
  assumes "AddOperationCommand_execute c env w = (None, c1, w1)"
  shows "\<exists>p operation.
      InMemoryRepository_findById (aoc_bankAccountId c) (accountRepo w) = Some p
    \<and> aoc_createdOperation c1 = Some operation \<and> op_id operation = env_id env
    \<and> InMemoryRepository_findById (op_id operation) (operationRepo w1) = Some operation
    \<and> aoc_previousBalance c1 = acc_balance (heap w p)
    \<and> fst (AddOperationCommand_undo c1 env' w1) = None
    \<and> InMemoryRepository_findById (aoc_bankAccountId c)
          (accountRepo (snd (snd (AddOperationCommand_undo c1 env' w1)))) = Some p
    \<and> (\<forall>wx c2 w2. AddOperationCommand_undo c1 env' wx = (None, c2, w2) \<longrightarrow>
          InMemoryRepository_findById (op_id operation) (operationRepo w2) = None
        \<and> (\<forall>k. k \<noteq> op_id operation \<longrightarrow>
              InMemoryRepository_findById k (operationRepo w2)
              = InMemoryRepository_findById k (operationRepo wx))
        \<and> acc_balance (heap w2 p) = acc_balance (heap w p)
        \<and> \<not> executed c2)"
proof -
  from assms obtain p operation where
    found: "map_of (accountRepo w) (aoc_bankAccountId c) = Some p"
    and created: "EntityFactory_createOperation (aoc_type c) (aoc_bankAccountId c)
           (aoc_amount c) (aoc_categoryId c) (aoc_description c) (env_id env)
           (env_clock env 0) (env_clock env 1) (env_clock env 2)
           = Inr operation"
    and processed: "processOperation operation (env_clock env 3) w = (None, w1)"
    and c1: "c1 = c\<lparr>executed := True, aoc_createdOperation := Some operation,
                       aoc_account := Some p,
                       aoc_previousBalance := acc_balance (heap w p)\<rparr>"
    by (rule addOperation_execute_ok)
  note op = createOperation_ok [OF created]
  from processed obtain p' a' where
    found': "map_of (accountRepo w) (op_bankAccountId operation) = Some p'"
    and moved: "(if op_type operation = INCOME
          then BankAccount_deposit (heap w p') (op_amount operation) (env_clock env 3)
          else BankAccount_withdraw (heap w p') (op_amount operation) (env_clock env 3))
          = (None, a')"
    and stored: "map_of (accountRepo w) (acc_id a') \<noteq> None"
    and w1: "w1 = w\<lparr>heap := (heap w)(p' := a'),
                operationRepo := AList.update (op_id operation) operation (operationRepo w),
                accountRepo := AList.update (acc_id a') p' (accountRepo w)\<rparr>"
    by (rule processOperation_ok)
  have pp: "p' = p" using found found' op(1) by simp
  have a': "acc_currency a' = acc_currency (heap w p)"
    "m_currency (acc_balance (heap w p)) = acc_currency (heap w p)"
    "acc_id a' = acc_id (heap w p)"
    using moved deposit_ok [of "heap w p" "op_amount operation" "env_clock env 3" a']
      withdraw_ok [of "heap w p" "op_amount operation" "env_clock env 3" a']
    by (auto simp: pp split: if_splits)
  have ex: "executed c1" "aoc_createdOperation c1 = Some operation" "aoc_account c1 = Some p"
    "aoc_previousBalance c1 = acc_balance (heap w p)"
    by (simp_all add: c1)
  note undo = addOperation_undo_unfold [OF ex(1-3)]
  have now: "fst (AddOperationCommand_undo c1 env' w1) = None"
    "InMemoryRepository_findById (aoc_bankAccountId c)
          (accountRepo (snd (snd (AddOperationCommand_undo c1 env' w1)))) = Some p"
    using a' found by (simp_all add: undo ex(4) w1 pp update_conv' InMemoryRepository_findById_def)
  have later: "InMemoryRepository_findById (op_id operation) (operationRepo w2) = None
        \<and> (\<forall>k. k \<noteq> op_id operation \<longrightarrow>
              InMemoryRepository_findById k (operationRepo w2)
              = InMemoryRepository_findById k (operationRepo wx))
        \<and> acc_balance (heap w2 p) = acc_balance (heap w p)
        \<and> \<not> executed c2"
    if u: "AddOperationCommand_undo c1 env' wx = (None, c2, w2)" for wx c2 w2
  proof -
    from u have "c2 = c1\<lparr>aoc_createdOperation := None, executed := False\<rparr>"
      and "operationRepo w2 = AList.delete (op_id operation) (operationRepo wx)"
      and "heap w2 p = (heap wx p)\<lparr>acc_balance := aoc_previousBalance c1,
                                     acc_updatedAt := env_clock env' 0\<rparr>"
      unfolding undo by (auto split: if_splits)
    then show ?thesis
      by (simp add: ex(4) InMemoryRepository_findById_def delete_conv')
  qed
  then have every: "\<forall>wx c2 w2. AddOperationCommand_undo c1 env' wx = (None, c2, w2) \<longrightarrow>
          InMemoryRepository_findById (op_id operation) (operationRepo w2) = None
        \<and> (\<forall>k. k \<noteq> op_id operation \<longrightarrow>
              InMemoryRepository_findById k (operationRepo w2)
              = InMemoryRepository_findById k (operationRepo wx))
        \<and> acc_balance (heap w2 p) = acc_balance (heap w p)
        \<and> \<not> executed c2"
    by blast
  have saved: "InMemoryRepository_findById (op_id operation) (operationRepo w1) = Some operation"
    by (simp add: w1 InMemoryRepository_findById_def update_conv')
  have first: "InMemoryRepository_findById (aoc_bankAccountId c) (accountRepo w) = Some p"
    "op_id operation = env_id env"
    using found op(1) by (simp_all add: InMemoryRepository_findById_def)
  show ?thesis
    apply (rule exI [of _ p], rule exI [of _ operation])
    apply (intro conjI)
    using first ex(2,4) saved now every
    by blast+
qed

theorem addOperation_undo_restores_witness:
  "fst exAdd = None
   \<and> acc_balance (heap (snd (snd exAdd)) 0) = rub 150000
   \<and> map fst (operationRepo (snd (snd exAdd))) = [''OP-1'']
   \<and> fst exAddUndo = None
   \<and> acc_balance (heap (snd (snd exAddUndo)) 0) = rub 100000
   \<and> operationRepo (snd (snd exAddUndo)) = []"
proof -
  have run: "AddOperationCommand_execute
               (AddOperationCommand_new INCOME ''ACC-1'' (rub 50000) ''CAT-1'' ''salary'')
               (exEnv 1 ''OP-1'') exWorld
             = (None, fst (snd exAdd), snd (snd exAdd))"
    by (simp add: exAdd_def eval_defs)
  have undone: "AddOperationCommand_undo (fst (snd exAdd)) (exEnv 2 ''OP-2'') (snd (snd exAdd))
                  = (None, fst (snd exAddUndo), snd (snd exAddUndo))"
    by (simp add: exAddUndo_def exAdd_def eval_defs)
  from addOperation_undo_restores [OF run, of "exEnv 2 ''OP-2''"]
  have "\<forall>c2 w2. AddOperationCommand_undo (fst (snd exAdd)) (exEnv 2 ''OP-2'') (snd (snd exAdd))
                  = (None, c2, w2)
          \<longrightarrow> acc_balance (heap w2 0) = acc_balance (heap exWorld 0)"
    by (auto simp: InMemoryRepository_findById_def exWorld_def AddOperationCommand_new_def)
  with undone have "acc_balance (heap (snd (snd exAddUndo)) 0) = acc_balance (heap exWorld 0)"
    by blast
  then show ?thesis
    by (simp add: exAddUndo_def exAdd_def eval_defs)
qed

section \<open>Transfers\<close>


text \<open>
  The compensating deposit after a withdrawal always returns. It computes the new balance
  of the source: the double sum of the double difference and the amount.
\<close>

lemma compensation:
  assumes "BankAccount_withdraw a m now1 = (None, a1)"
  shows "BankAccount_deposit a1 m now2
         = (None, a\<lparr>acc_balance :=
                       \<lparr>m_amount = double_add (double_subtract (m_amount (acc_balance a))
                                                  (m_amount m)) (m_amount m),
                        m_currency = acc_currency a\<rparr>,
                     acc_updatedAt := now2\<rparr>)"
  using withdraw_ok [OF assms]
  by (simp add: BankAccount_deposit_def Money_add_def Money_new_def Money_isPositive_def
        validateNotEmpty_def validateMaxLength_def)

text \<open>
  Rounding can make that sum differ from the balance before the withdrawal: 885263.1
  minus 360382.79 plus 360382.79, each taken as the nearest double, is the double after
  885263.1.
\<close>

lemma compensation_rounds:
  "roundDouble (8852631 / 10) = Finite (7604352125711155 / 8589934592)
   \<and> roundDouble (36038279 / 100) = Finite (6191329188364943 / 17179869184)
   \<and> double_add (double_subtract (Finite (7604352125711155 / 8589934592))
                   (Finite (6191329188364943 / 17179869184)))
        (Finite (6191329188364943 / 17179869184))
       = Finite (7604352125711156 / 8589934592)"
  by (simp add: roundDouble_normal [of 19] roundDouble_normal [of 18] pow2_def
        roundHalfEven_def maxDouble_def)


lemma transfer_unstarted:
  assumes "\<not> acc_isActive a \<or> \<not> acc_isActive b \<or> acc_id a = acc_id b
           \<or> fst (BankAccount_withdraw a m now1) \<noteq> None"
  shows "\<exists>e. BankAccount_transfer a b m now1 now2 = (Some e, a, b)"
  using assms
  by (auto simp: BankAccount_transfer_def dest: withdraw_fail
       split: if_splits prod.splits option.splits)

lemma transfer_compensates:
  assumes "acc_isActive a" "acc_isActive b" "acc_id a \<noteq> acc_id b"
    and "fst (BankAccount_withdraw a m now1) = None"
    and "fst (BankAccount_deposit b m now2) = Some e"
  shows "BankAccount_transfer a b m now1 now2
         = (Some e,
            a\<lparr>acc_balance :=
                 \<lparr>m_amount = double_add (double_subtract (m_amount (acc_balance a))
                                            (m_amount m)) (m_amount m),
                  m_currency = acc_currency a\<rparr>,
               acc_updatedAt := now2\<rparr>,
            b)"
proof -
  obtain a1 where w: "BankAccount_withdraw a m now1 = (None, a1)"
    using assms(4) by (cases "BankAccount_withdraw a m now1") auto
  obtain b1 where d: "BankAccount_deposit b m now2 = (Some e, b1)"
    using assms(5) by (cases "BankAccount_deposit b m now2") auto
  from deposit_fail [OF d] compensation [OF w, of now2] w d assms(1-3) show ?thesis
    by (simp add: BankAccount_transfer_def)
qed

lemma transfer_execute_fail:
  assumes "\<not> executed c"
    and "InMemoryRepository_findById (tc_fromAccountId c) (accountRepo w) = Some p"
    and "InMemoryRepository_findById (tc_toAccountId c) (accountRepo w) = Some q"
    and "BankAccount_transfer (heap w p) (heap w q) (tc_amount c)
           (env_clock env 0) (env_clock env 1) = (Some e, a, b)"
  shows "TransferCommand_execute c env w = (Some e, c, setAccount q b (setAccount p a w))"
  using assms
  by (simp add: TransferCommand_execute_def BaseCommand_execute_def TransferCommand_doExecute_def)

text \<open>
  Claim C4, as the code has it. Take a fresh \<open>TransferCommand\<close> whose two accounts are in
  the repository. Whenever the source's balance is less than the amount, \<open>execute\<close> throws
  and leaves the command and the whole ledger (every account and all repositories) as
  they were. The exception is the insufficient-funds one, carrying the amount and the
  balance, when both accounts are active and distinct and the amount is positive and in
  the source's currency, as the source's balance is. When both accounts are active and
  distinct, the withdrawal from the source returns and the deposit into the destination
  throws, the exception of the deposit leaves \<open>execute\<close>, the command, the repositories and
  every account but the source are untouched, and the amount has been deposited back into
  the source: its balance is the double sum of the double difference and the amount
  (which rounding can make differ from the balance before), and its modification time is
  the second reading of the clock.
\<close>

theorem transfer_failure_leaves_balances:
  assumes "\<not> executed c"
    and "InMemoryRepository_findById (tc_fromAccountId c) (accountRepo w) = Some p"
    and "InMemoryRepository_findById (tc_toAccountId c) (accountRepo w) = Some q"
    and "TransferCommand_execute c env w = (r, c', w')"
  shows "(double_less (m_amount (acc_balance (heap w p))) (m_amount (tc_amount c))
            \<longrightarrow> r \<noteq> None \<and> c' = c \<and> w' = w)
       \<and> (acc_isActive (heap w p) \<and> acc_isActive (heap w q)
          \<and> acc_id (heap w p) \<noteq> acc_id (heap w q)
          \<and> m_currency (tc_amount c) = acc_currency (heap w p)
          \<and> m_currency (acc_balance (heap w p)) = acc_currency (heap w p)
          \<and> double_less literal_0 (m_amount (tc_amount c))
          \<and> double_less (m_amount (acc_balance (heap w p))) (m_amount (tc_amount c))
          \<longrightarrow> r = Some (InsufficientFundsException (m_amount (tc_amount c))
                         (m_amount (acc_balance (heap w p)))))
       \<and> (\<forall>e. acc_isActive (heap w p) \<and> acc_isActive (heap w q)
              \<and> acc_id (heap w p) \<noteq> acc_id (heap w q)
              \<and> fst (BankAccount_withdraw (heap w p) (tc_amount c) (env_clock env 0)) = None
              \<and> fst (BankAccount_deposit (heap w q) (tc_amount c) (env_clock env 1)) = Some e
            \<longrightarrow> r = Some e \<and> c' = c
              \<and> accountRepo w' = accountRepo w \<and> operationRepo w' = operationRepo w
              \<and> categoryRepo w' = categoryRepo w
              \<and> (\<forall>x. x \<noteq> p \<longrightarrow> heap w' x = heap w x)
              \<and> heap w' p
                  = (heap w p)
                      \<lparr>acc_balance :=
                         \<lparr>m_amount =
                            double_add (double_subtract (m_amount (acc_balance (heap w p)))
                                          (m_amount (tc_amount c)))
                              (m_amount (tc_amount c)),
                          m_currency = acc_currency (heap w p)\<rparr>,
                       acc_updatedAt := env_clock env 1\<rparr>)"
proof -
  let ?t = "BankAccount_transfer (heap w p) (heap w q) (tc_amount c)
              (env_clock env 0) (env_clock env 1)"
  have failed: "r = Some e \<and> c' = c \<and> w' = setAccount q b (setAccount p a w)"
    if "?t = (Some e, a, b)" for e a b
    using transfer_execute_fail [OF assms(1-3) that] assms(4) by simp
  have same: "setAccount q (heap w q) (setAccount p (heap w p) w) = w"
    by (simp add: setAccount_def)
  have c1: "r \<noteq> None \<and> c' = c \<and> w' = w"
    if less: "double_less (m_amount (acc_balance (heap w p))) (m_amount (tc_amount c))"
  proof -
    have "fst (BankAccount_withdraw (heap w p) (tc_amount c) (env_clock env 0)) \<noteq> None"
    proof
      assume "fst (BankAccount_withdraw (heap w p) (tc_amount c) (env_clock env 0)) = None"
      then obtain a where
        "BankAccount_withdraw (heap w p) (tc_amount c) (env_clock env 0) = (None, a)"
        by (cases "BankAccount_withdraw (heap w p) (tc_amount c) (env_clock env 0)") auto
      from withdraw_ok(8) [OF this] less show False by simp
    qed
    then have "\<not> acc_isActive (heap w p) \<or> \<not> acc_isActive (heap w q)
          \<or> acc_id (heap w p) = acc_id (heap w q)
          \<or> fst (BankAccount_withdraw (heap w p) (tc_amount c) (env_clock env 0)) \<noteq> None"
      by simp
    from transfer_unstarted [OF this, of "env_clock env 1"]
    obtain e where "?t = (Some e, heap w p, heap w q)" by blast
    from failed [OF this] show ?thesis by (simp only: same) simp
  qed
  have c2: "r = Some (InsufficientFundsException (m_amount (tc_amount c))
                         (m_amount (acc_balance (heap w p))))"
    if h: "acc_isActive (heap w p) \<and> acc_isActive (heap w q)
          \<and> acc_id (heap w p) \<noteq> acc_id (heap w q)
          \<and> m_currency (tc_amount c) = acc_currency (heap w p)
          \<and> m_currency (acc_balance (heap w p)) = acc_currency (heap w p)
          \<and> double_less literal_0 (m_amount (tc_amount c))
          \<and> double_less (m_amount (acc_balance (heap w p))) (m_amount (tc_amount c))"
  proof -
    from h have "?t = (Some (InsufficientFundsException (m_amount (tc_amount c))
                 (m_amount (acc_balance (heap w p)))), heap w p, heap w q)"
      by (simp add: BankAccount_transfer_def BankAccount_withdraw_def Money_less_def
            Money_isPositive_def)
    from failed [OF this] show ?thesis by simp
  qed
  have c3: "r = Some e \<and> c' = c
              \<and> accountRepo w' = accountRepo w \<and> operationRepo w' = operationRepo w
              \<and> categoryRepo w' = categoryRepo w
              \<and> (\<forall>x. x \<noteq> p \<longrightarrow> heap w' x = heap w x)
              \<and> heap w' p
                  = (heap w p)
                      \<lparr>acc_balance :=
                         \<lparr>m_amount =
                            double_add (double_subtract (m_amount (acc_balance (heap w p)))
                                          (m_amount (tc_amount c)))
                              (m_amount (tc_amount c)),
                          m_currency = acc_currency (heap w p)\<rparr>,
                       acc_updatedAt := env_clock env 1\<rparr>"
    if h: "acc_isActive (heap w p) \<and> acc_isActive (heap w q)
              \<and> acc_id (heap w p) \<noteq> acc_id (heap w q)
              \<and> fst (BankAccount_withdraw (heap w p) (tc_amount c) (env_clock env 0)) = None
              \<and> fst (BankAccount_deposit (heap w q) (tc_amount c) (env_clock env 1)) = Some e"
    for e
  proof -
    from h have pq: "p \<noteq> q" by auto
    from h have "?t = (Some e,
            (heap w p)
              \<lparr>acc_balance :=
                 \<lparr>m_amount = double_add (double_subtract (m_amount (acc_balance (heap w p)))
                                            (m_amount (tc_amount c))) (m_amount (tc_amount c)),
                  m_currency = acc_currency (heap w p)\<rparr>,
               acc_updatedAt := env_clock env 1\<rparr>,
            heap w q)"
      by (intro transfer_compensates) simp_all
    from failed [OF this] pq show ?thesis by (simp add: setAccount_def)
  qed
  from c1 c2 c3 show ?thesis by blast
qed

theorem transfer_failure_leaves_balances_witness:
  "TransferCommand_execute (exTransfer 200) (exEnv 1 ''OP-1'') (exWorld2 True ''RUB'')
     = (Some (InsufficientFundsException (Finite 200) (Finite 100)), exTransfer 200,
        exWorld2 True ''RUB'')
   \<and> fst (TransferCommand_execute (exTransfer 40) (exEnv 1 ''OP-1'') (exWorld2 True ''USD''))
       = Some ValidationException
   \<and> heap (snd (snd (TransferCommand_execute (exTransfer 40) (exEnv 1 ''OP-1'')
                        (exWorld2 True ''USD'')))) 0
       = (exAccount ''ACC-1'' ''Main'' 100 True)\<lparr>acc_updatedAt := 11\<rparr>
   \<and> heap (snd (snd (TransferCommand_execute (exTransfer 40) (exEnv 1 ''OP-1'')
                        (exWorld2 True ''USD'')))) 1
       = heap (exWorld2 True ''USD'') 1"
proof -
  have fresh: "\<not> executed (exTransfer a)" for a
    by (simp add: exTransfer_def TransferCommand_new_def)
  have found: "InMemoryRepository_findById (tc_fromAccountId (exTransfer a))
                 (accountRepo (exWorld2 True cur)) = Some 0"
    "InMemoryRepository_findById (tc_toAccountId (exTransfer a))
                 (accountRepo (exWorld2 True cur)) = Some 1" for a cur
    by (simp_all add: exTransfer_def TransferCommand_new_def exWorld2_def
          InMemoryRepository_findById_def)
  have run: "TransferCommand_execute (exTransfer a) (exEnv 1 ''OP-1'') (exWorld2 True cur)
             = (fst (TransferCommand_execute (exTransfer a) (exEnv 1 ''OP-1'')
                       (exWorld2 True cur)),
                fst (snd (TransferCommand_execute (exTransfer a) (exEnv 1 ''OP-1'')
                       (exWorld2 True cur))),
                snd (snd (TransferCommand_execute (exTransfer a) (exEnv 1 ''OP-1'')
                       (exWorld2 True cur))))" for a cur
    by simp
  note short = transfer_failure_leaves_balances
    [OF fresh [of 200] found(1) [of 200 "''RUB''"] found(2) [of 200 "''RUB''"]
        run [of 200 "''RUB''"]]
  note foreign = transfer_failure_leaves_balances
    [OF fresh [of 40] found(1) [of 40 "''USD''"] found(2) [of 40 "''USD''"]
        run [of 40 "''USD''"], THEN conjunct2, THEN conjunct2, THEN spec, THEN mp]
  have conditions:
    "acc_isActive (heap (exWorld2 True ''RUB'') 0) \<and> acc_isActive (heap (exWorld2 True ''RUB'') 1)
     \<and> acc_id (heap (exWorld2 True ''RUB'') 0) \<noteq> acc_id (heap (exWorld2 True ''RUB'') 1)
     \<and> m_currency (tc_amount (exTransfer 200)) = acc_currency (heap (exWorld2 True ''RUB'') 0)
     \<and> m_currency (acc_balance (heap (exWorld2 True ''RUB'') 0))
         = acc_currency (heap (exWorld2 True ''RUB'') 0)
     \<and> double_less literal_0 (m_amount (tc_amount (exTransfer 200)))
     \<and> double_less (m_amount (acc_balance (heap (exWorld2 True ''RUB'') 0)))
         (m_amount (tc_amount (exTransfer 200)))"
    by (simp add: exWorld2_def exAccount_def exTransfer_def TransferCommand_new_def rub_def
          literal_0_def)
  have compensated:
    "acc_isActive (heap (exWorld2 True ''USD'') 0) \<and> acc_isActive (heap (exWorld2 True ''USD'') 1)
     \<and> acc_id (heap (exWorld2 True ''USD'') 0) \<noteq> acc_id (heap (exWorld2 True ''USD'') 1)
     \<and> fst (BankAccount_withdraw (heap (exWorld2 True ''USD'') 0) (tc_amount (exTransfer 40))
              (env_clock (exEnv 1 ''OP-1'') 0)) = None
     \<and> fst (BankAccount_deposit (heap (exWorld2 True ''USD'') 1) (tc_amount (exTransfer 40))
              (env_clock (exEnv 1 ''OP-1'') 1)) = Some ValidationException"
    by (simp add: exWorld2_def exAccount_def exTransfer_def TransferCommand_new_def rub_def
          exEnv_def BankAccount_withdraw_def BankAccount_deposit_def money_defs
          validateNotEmpty_def validateMaxLength_def)
  from short conditions
  have "TransferCommand_execute (exTransfer 200) (exEnv 1 ''OP-1'') (exWorld2 True ''RUB'')
     = (Some (InsufficientFundsException (m_amount (tc_amount (exTransfer 200)))
               (m_amount (acc_balance (heap (exWorld2 True ''RUB'') 0)))),
        exTransfer 200, exWorld2 True ''RUB'')"
    by (metis prod.collapse)
  then have first: "TransferCommand_execute (exTransfer 200) (exEnv 1 ''OP-1'')
                      (exWorld2 True ''RUB'')
     = (Some (InsufficientFundsException (Finite 200) (Finite 100)), exTransfer 200,
        exWorld2 True ''RUB'')"
    by (simp add: exWorld2_def exAccount_def exTransfer_def TransferCommand_new_def rub_def)
  note credited = foreign [OF compensated]
  have second: "fst (TransferCommand_execute (exTransfer 40) (exEnv 1 ''OP-1'')
                       (exWorld2 True ''USD'')) = Some ValidationException"
    using credited by (rule conjunct1)
  have untouched: "heap (snd (snd (TransferCommand_execute (exTransfer 40) (exEnv 1 ''OP-1'')
                        (exWorld2 True ''USD'')))) 1
       = heap (exWorld2 True ''USD'') 1"
    using credited by simp
  have source: "heap (snd (snd (TransferCommand_execute (exTransfer 40) (exEnv 1 ''OP-1'')
                        (exWorld2 True ''USD'')))) 0
       = (exAccount ''ACC-1'' ''Main'' 100 True)\<lparr>acc_updatedAt := 11\<rparr>"
    using credited
    by (simp add: exWorld2_def exAccount_def exTransfer_def TransferCommand_new_def rub_def
          exEnv_def double_defs)
  from first second source untouched show ?thesis
    by simp
qed

text \<open>
  Claim C4 as stated fails: with an inactive source whose balance is below the amount the
  transfer between two distinct accounts throws the domain exception of the activity
  guard, not the insufficient-funds one.
\<close>

theorem transfer_inactive_counterexample:
  "acc_id (heap (exWorld2 False ''RUB'') 0) \<noteq> acc_id (heap (exWorld2 False ''RUB'') 1)
   \<and> InMemoryRepository_findById ''ACC-1'' (accountRepo (exWorld2 False ''RUB'')) = Some 0
   \<and> InMemoryRepository_findById ''ACC-2'' (accountRepo (exWorld2 False ''RUB'')) = Some 1
   \<and> double_less (m_amount (acc_balance (heap (exWorld2 False ''RUB'') 0))) (m_amount (rub 200))
   \<and> fst (TransferCommand_execute (exTransfer 200) (exEnv 1 ''OP-1'') (exWorld2 False ''RUB''))
       = Some DomainException"
  by (simp add: eval_defs)














section \<open>Balance reconciliation\<close>

text \<open>
  Claim C1, on its own scenario. The account \<open>Main\<close> is created with 100000 RUB, an income
  of 50000 and an expense of 5000 are added, and every command returns.
  (\<open>AddOperationCommand\<close> only checks the form of the category identifier, so the
  categories of the scenario play no part.) The stored balance is 145000, as it should
  be. But \<open>checkAccountBalance\<close> adds up the operations of the account from zero, and
  \<open>CreateAccountCommand\<close> has recorded no operation for the opening balance: the
  calculated balance is 45000 and a discrepancy is reported, where the check should find
  the balance in agreement with the operations carried out on the account. With
  \<open>autoFix\<close>, \<open>recalculateBalance\<close> then overwrites the stored balance with 45000: the
  opening balance is lost.
\<close>

theorem reconciliation_scenario_discrepancy:
  "fst exLedger0 = None \<and> fst exLedger1 = None \<and> fst exLedger2 = None
   \<and> acc_balance (heap (snd (snd exLedger0)) 0) = rub 100000
   \<and> acc_balance (heap (snd (snd exLedger1)) 0) = rub 150000
   \<and> operationRepo (snd (snd exLedger0)) = []
   \<and> map fst (operationRepo (snd (snd exLedger2))) = [''OP-1'', ''OP-2'']
   \<and> checkAccountBalance ''ACC-1'' (snd (snd exLedger2))
       = Inr \<lparr>ab_accountId = ''ACC-1'', ab_accountName = ''Main'',
              ab_balance = rub 145000, ab_calculatedBalance = rub 45000,
              ab_hasDiscrepancy = True\<rparr>
   \<and> fst (BalanceReconciliationService_recalculateBalance ''ACC-1'' True 30
            (snd (snd exLedger2))) = None
   \<and> acc_balance (heap (snd (BalanceReconciliationService_recalculateBalance ''ACC-1'' True 30
                              (snd (snd exLedger2)))) 0) = rub 45000"
  by (simp add: exLedger2_def exLedger1_def exLedger0_def eval_defs)
section \<open>Adding and subtracting money\<close>

text \<open>
  The rounding of a result below \<open>2^k\<close> in magnitude is finite and at most \<open>2^(k-54)\<close> away
  from it.
\<close>

lemma roundHalfEven_error: "\<bar>of_int (roundHalfEven r) - r\<bar> \<le> 1 / 2"
  unfolding roundHalfEven_def Let_def
  by (auto simp: abs_le_iff)

lemma pow2_powr: "pow2 e = 2 powr (of_int e)"
proof (cases "0 \<le> e")
  case True
  then have "2 powr (of_int e) = (2::real) powr (real (nat e))" by simp
  also have "\<dots> = 2 ^ nat e" by (simp only: powr_realpow [of 2 "nat e"])
  finally show ?thesis using True by (simp add: pow2_def)
next
  case False
  then have "2 powr (of_int e) = (2::real) powr (- real (nat (- e)))" by simp
  also have "\<dots> = 1 / 2 ^ nat (- e)"
    by (simp only: powr_minus powr_realpow [of 2 "nat (- e)"]) (simp add: field_simps)
  finally show ?thesis using False by (simp add: pow2_def)
qed

lemma ulp_bound:
  assumes "\<bar>x\<bar> < 2 ^ k" and "1 \<le> k"
  shows "ulp x \<le> 2 ^ k / 2 ^ 53"
proof -
  have e: "binaryExponent \<bar>x\<bar> \<le> int k - 1"
  proof (cases "1 \<le> \<bar>x\<bar>")
    case True
    have "\<lfloor>\<bar>x\<bar>\<rfloor> < 2 ^ k" using assms(1) by (simp add: floor_less_iff)
    then have "bitlen \<lfloor>\<bar>x\<bar>\<rfloor> \<le> int k"
      by (simp add: bitlen_le_iff_power)
    with True show ?thesis by (simp add: binaryExponent_def)
  next
    case False
    then show ?thesis
      using assms(2) bitlen_nonneg [of "\<lceil>1 / \<bar>x\<bar>\<rceil> - 1"] by (simp add: binaryExponent_def)
  qed
  have "ulp x \<le> pow2 (int k - 53)"
    unfolding ulp_def pow2_powr using e assms(2) by (intro powr_mono) simp_all
  also have "\<dots> = 2 powr (real k) / 2 powr 53"
    by (simp add: pow2_powr powr_diff)
  also have "\<dots> = 2 ^ k / 2 ^ 53"
    by (simp add: powr_realpow)
  finally show ?thesis .
qed

lemma roundDouble_error:
  assumes "\<bar>x\<bar> < 2 ^ k" and "1 \<le> k" and "k \<le> 1000"
  shows "\<exists>y. roundDouble x = Finite y \<and> \<bar>y - x\<bar> \<le> 2 ^ k / 2 ^ 54"
proof (cases "x = 0")
  case True
  then show ?thesis by (simp add: roundDouble_def)
next
  case False
  let ?q = "ulp x"
  let ?y = "of_int (roundHalfEven (x / ?q)) * ?q"
  have q: "0 < ?q" by (rule ulp_positive)
  have "?y - x = (of_int (roundHalfEven (x / ?q)) - x / ?q) * ?q"
    using q by (simp add: field_simps)
  then have "\<bar>?y - x\<bar> = \<bar>of_int (roundHalfEven (x / ?q)) - x / ?q\<bar> * ?q"
    using q by (simp add: abs_mult)
  also have "\<dots> \<le> 1 / 2 * ?q"
    using roundHalfEven_error [of "x / ?q"] q by (intro mult_right_mono) simp_all
  also have "\<dots> \<le> 1 / 2 * (2 ^ k / 2 ^ 53)"
    using ulp_bound [OF assms(1,2)] by simp
  finally have err: "\<bar>?y - x\<bar> \<le> 2 ^ k / 2 ^ 54" by simp
  have "(2::real) ^ k \<le> 2 ^ 1000" using assms(3) by (intro power_increasing) simp_all
  moreover have "(2::real) ^ k / 2 ^ 54 \<le> 2 ^ k" by (simp add: field_simps)
  moreover have "(2::real) ^ 1000 + 2 ^ 1000 \<le> maxDouble" by (simp add: maxDouble_def)
  ultimately have "\<bar>?y\<bar> \<le> maxDouble"
    using err assms(1) by linarith
  then show ?thesis
    using False err by (auto simp: roundDouble_def Let_def)
qed


lemma round_trip_close:
  assumes "\<bar>x\<bar> \<le> 1000000000000" and "\<bar>y\<bar> \<le> 1000000000000"
  shows "\<exists>s r. roundDouble (x + y) = Finite s \<and> roundDouble (s - y) = Finite r
           \<and> double_less (double_abs (double_subtract (Finite r) (Finite x))) literal_0_001"
proof -
  have "\<bar>x + y\<bar> < 2 ^ 42" using assms by simp
  from roundDouble_error [OF this] obtain s where
    s: "roundDouble (x + y) = Finite s" and "\<bar>s - (x + y)\<bar> \<le> 2 ^ 42 / 2 ^ 54"
    by auto
  then have es: "\<bar>s - (x + y)\<bar> \<le> 1 / 4096" by simp
  have "\<bar>s - y\<bar> < 2199023255552" using assms es by linarith
  then have "\<bar>s - y\<bar> < 2 ^ 41" by simp
  from roundDouble_error [OF this] obtain r where
    r: "roundDouble (s - y) = Finite r" and "\<bar>r - (s - y)\<bar> \<le> 2 ^ 41 / 2 ^ 54"
    by auto
  then have er: "\<bar>r - (s - y)\<bar> \<le> 1 / 8192" by simp
  have "\<bar>r - x\<bar> < 2" using es er by linarith
  then have "\<bar>r - x\<bar> < 2 ^ 1" by simp
  from roundDouble_error [OF this] obtain d where
    d: "roundDouble (r - x) = Finite d" and "\<bar>d - (r - x)\<bar> \<le> 2 ^ 1 / 2 ^ 54"
    by auto
  then have ed: "\<bar>d - (r - x)\<bar> \<le> 1 / 9007199254740992" by simp
  have "\<bar>d\<bar> < 1152921504606847 / 1152921504606846976"
    using es er ed by linarith
  then show ?thesis
    using s r d by (auto simp: literal_0_001_value)
qed

text \<open>
  Claim C8, as the code has it. Take two \<open>Money\<close> values of equal currency codes. When the
  code is empty or longer than three bytes (a default-constructed \<open>Money\<close> has the empty
  one), \<open>add\<close> throws the validation exception. Otherwise \<open>a.add(b).subtract(b)\<close> returns a
  value in the currency of \<open>a\<close> whose amount is the double difference of the double sum
  and \<open>b\<close>; and when both amounts are finite and at most \<open>10^12\<close> in magnitude, the two
  roundings stay so small that the result equals \<open>a\<close> under the equality of \<open>Money\<close>.
\<close>

theorem money_round_trip:
  assumes "m_currency a = m_currency b"
  shows "(m_currency a = [] \<or> 3 < length (m_currency a)
            \<longrightarrow> Money_add a b = Inl ValidationException)
       \<and> (m_currency a \<noteq> [] \<and> length (m_currency a) \<le> 3 \<longrightarrow>
            (\<exists>s r. Money_add a b = Inr s \<and> Money_subtract s b = Inr r
               \<and> m_currency r = m_currency a
               \<and> m_amount r
                   = double_subtract (double_add (m_amount a) (m_amount b)) (m_amount b)
               \<and> (\<forall>x y. m_amount a = Finite x \<and> m_amount b = Finite y
                      \<and> \<bar>x\<bar> \<le> 1000000000000 \<and> \<bar>y\<bar> \<le> 1000000000000
                    \<longrightarrow> Money_equals r a)))"
proof -
  let ?s = "\<lparr>m_amount = double_add (m_amount a) (m_amount b), m_currency = m_currency a\<rparr>"
  let ?r = "\<lparr>m_amount = double_subtract (double_add (m_amount a) (m_amount b)) (m_amount b),
            m_currency = m_currency a\<rparr>"
  have invalid: "Money_add a b = Inl ValidationException"
    if "m_currency a = [] \<or> 3 < length (m_currency a)"
    using that assms by (auto simp: Money_add_def Money_new_fail)
  have valid: "Money_add a b = Inr ?s \<and> Money_subtract ?s b = Inr ?r"
    if "m_currency a \<noteq> [] \<and> length (m_currency a) \<le> 3"
    using that assms by (simp add: Money_add_def Money_subtract_def Money_new_ok)
  have close: "Money_equals ?r a"
    if "m_amount a = Finite x \<and> m_amount b = Finite y
        \<and> \<bar>x\<bar> \<le> 1000000000000 \<and> \<bar>y\<bar> \<le> 1000000000000" for x y
    using round_trip_close [of x y] that by (auto simp: Money_equals_def)
  show ?thesis
  proof (intro conjI impI)
    assume "m_currency a = [] \<or> 3 < length (m_currency a)"
    then show "Money_add a b = Inl ValidationException" by (rule invalid)
  next
    assume v: "m_currency a \<noteq> [] \<and> length (m_currency a) \<le> 3"
    show "\<exists>s r. Money_add a b = Inr s \<and> Money_subtract s b = Inr r
               \<and> m_currency r = m_currency a
               \<and> m_amount r
                   = double_subtract (double_add (m_amount a) (m_amount b)) (m_amount b)
               \<and> (\<forall>x y. m_amount a = Finite x \<and> m_amount b = Finite y
                      \<and> \<bar>x\<bar> \<le> 1000000000000 \<and> \<bar>y\<bar> \<le> 1000000000000
                    \<longrightarrow> Money_equals r a)"
      apply (rule exI [of _ ?s], rule exI [of _ ?r])
      using valid [OF v] close by simp
  qed
qed

theorem money_round_trip_witness:
  "Money_add (rub 100) (rub 30) = Inr (rub 130)
   \<and> Money_subtract (rub 130) (rub 30) = Inr (rub 100)
   \<and> Money_equals (rub 100) (rub 100)
   \<and> Money_add \<lparr>m_amount = Finite 100, m_currency = []\<rparr> \<lparr>m_amount = Finite 30, m_currency = []\<rparr>
       = Inl ValidationException"
proof -
  have same: "m_currency (rub 100) = m_currency (rub 30)"
    by (simp add: rub_def)
  have empty: "m_currency \<lparr>m_amount = Finite 100, m_currency = []\<rparr>
               = m_currency \<lparr>m_amount = Finite 30, m_currency = []\<rparr>"
    by simp
  from money_round_trip [OF same]
  obtain s r where "Money_add (rub 100) (rub 30) = Inr s" "Money_subtract s (rub 30) = Inr r"
    "m_currency r = ''RUB''"
    "m_amount r = double_subtract (double_add (Finite 100) (Finite 30)) (Finite 30)"
    "Money_equals r (rub 100)"
    by (auto simp: rub_def)
  moreover from this(3,4) have "r = rub 100"
    by (simp add: rub_def double_defs)
  moreover have "Money_add (rub 100) (rub 30) = Inr (rub 130)"
    by (simp add: rub_def money_defs validateNotEmpty_def validateMaxLength_def)
  ultimately have "Money_add (rub 100) (rub 30) = Inr (rub 130)
     \<and> Money_subtract (rub 130) (rub 30) = Inr (rub 100)
     \<and> Money_equals (rub 100) (rub 100)"
    by simp
  with money_round_trip [OF empty] show ?thesis
    by simp
qed

lemma round_large: "roundDouble 10000000000000000 = Finite 10000000000000000"
  by (simp add: roundDouble_normal [of 53] pow2_def roundHalfEven_def maxDouble_def)

lemma round_absorbs: "roundDouble 10000000000000001 = Finite 10000000000000000"
  by (simp add: roundDouble_normal [of 53] pow2_def roundHalfEven_def maxDouble_def)

text \<open>
  Claim C8 as stated fails: the sum of 1 and 10000000000000000 (both are doubles) is
  rounded to 10000000000000000, so adding and subtracting that amount turns 1 rouble into
  0, which is not equal to 1 under the equality of \<open>Money\<close>.
\<close>

theorem money_round_trip_counterexample:
  "m_currency (rub 1) = m_currency (rub 10000000000000000)
   \<and> roundDouble 1 = Finite 1
   \<and> roundDouble 10000000000000000 = Finite 10000000000000000
   \<and> Money_add (rub 1) (rub 10000000000000000) = Inr (rub 10000000000000000)
   \<and> Money_subtract (rub 10000000000000000) (rub 10000000000000000) = Inr (rub 0)
   \<and> \<not> Money_equals (rub 0) (rub 1)"
  by (simp add: rub_def Money_add_def Money_subtract_def Money_equals_def Money_new_def
        validateNotEmpty_def validateMaxLength_def round_absorbs round_large
        literal_0_001_value roundDouble_integer)
end
